theory Spec2Isabelle
  imports Complex_Main "HOL-Library.AList" "HOL-Library.Sublist"
begin

section \<open>Values of the program: parsed JSON\<close>

text \<open>
  The program (\<^verbatim>\<open>whisper_stt.py\<close>) works on what \<^verbatim>\<open>json.load\<close> and
  \<^verbatim>\<open>json.loads\<close> return: \<^verbatim>\<open>None\<close>, booleans, integers, floats, strings, lists
  and dictionaries with string keys. A dictionary is an association list in insertion
  order, read with \<open>map_of\<close> and written with \<open>AList.update\<close> (which replaces the value
  of a key in place and puts a new key at the end, as a Python dictionary does).
  A finite float is the rational number it denotes; the non-standard literals
  \<^verbatim>\<open>NaN\<close> and \<^verbatim>\<open>Infinity\<close> are outside the model. A \<open>char\<close> stands for one
  element of a Python string.
\<close>

datatype json =
    JNull
  | JBool bool
  | JInt int
  | JFloat rat
  | JStr string
  | JArr "json list"
  | JObj "(string \<times> json) list"

datatype py_error = TypeError | KeyError | AttributeError | JSONDecodeError

type_synonym 'a result = "py_error + 'a"

text \<open>Sequencing of computations that may raise: the first exception ends the run.\<close>

definition ebind :: "'a result \<Rightarrow> ('a \<Rightarrow> 'b result) \<Rightarrow> 'b result" where
  "ebind m f = (case m of Inl e \<Rightarrow> Inl e | Inr x \<Rightarrow> f x)"

subsection \<open>The Python operations the program applies to these values\<close>

text \<open>Truth value of an object, as \<^verbatim>\<open>if x:\<close> and \<^verbatim>\<open>x and y\<close> test it.\<close>

fun truthy :: "json \<Rightarrow> bool" where
  "truthy JNull = False"
| "truthy (JBool b) = b"
| "truthy (JInt i) = (i \<noteq> 0)"
| "truthy (JFloat r) = (r \<noteq> 0)"
| "truthy (JStr s) = (s \<noteq> [])"
| "truthy (JArr xs) = (xs \<noteq> [])"
| "truthy (JObj kvs) = (kvs \<noteq> [])"

text \<open>
  \<^verbatim>\<open>x == y\<close>: numbers and booleans compare by value, lists element by element,
  dictionaries as sets of items; values of different kinds are unequal.
\<close>

fun py_eq :: "json \<Rightarrow> json \<Rightarrow> bool"
  and py_eq_list :: "json list \<Rightarrow> json list \<Rightarrow> bool"
  and py_eq_items :: "(string \<times> json) list \<Rightarrow> (string \<times> json) list \<Rightarrow> bool" where
  "py_eq JNull y = (case y of JNull \<Rightarrow> True | _ \<Rightarrow> False)"
| "py_eq (JBool a) y =
     (case y of JBool b \<Rightarrow> a = b | JInt j \<Rightarrow> of_bool a = j | JFloat r \<Rightarrow> of_bool a = r
      | _ \<Rightarrow> False)"
| "py_eq (JInt i) y =
     (case y of JBool b \<Rightarrow> i = of_bool b | JInt j \<Rightarrow> i = j | JFloat r \<Rightarrow> of_int i = r
      | _ \<Rightarrow> False)"
| "py_eq (JFloat q) y =
     (case y of JBool b \<Rightarrow> q = of_bool b | JInt j \<Rightarrow> q = of_int j | JFloat r \<Rightarrow> q = r
      | _ \<Rightarrow> False)"
| "py_eq (JStr s) y = (case y of JStr t \<Rightarrow> s = t | _ \<Rightarrow> False)"
| "py_eq (JArr xs) y = (case y of JArr ys \<Rightarrow> py_eq_list xs ys | _ \<Rightarrow> False)"
| "py_eq (JObj a) y =
     (case y of JObj b \<Rightarrow> length a = length b \<and> py_eq_items a b | _ \<Rightarrow> False)"
| "py_eq_list [] ys = (ys = [])"
| "py_eq_list (x # xs) ys =
     (case ys of [] \<Rightarrow> False | y # ys' \<Rightarrow> py_eq x y \<and> py_eq_list xs ys')"
| "py_eq_items [] b = True"
| "py_eq_items (kv # a) b =
     (case map_of b (fst kv) of None \<Rightarrow> False
      | Some v' \<Rightarrow> py_eq (snd kv) v' \<and> py_eq_items a b)"

text \<open>\<^verbatim>\<open>obj[key]\<close> with a string key: only a dictionary accepts it.\<close>

definition getitem :: "json \<Rightarrow> string \<Rightarrow> json result" where
  "getitem obj key =
     (case obj of
        JObj kvs \<Rightarrow> (case map_of kvs key of None \<Rightarrow> Inl KeyError | Some v \<Rightarrow> Inr v)
      | _ \<Rightarrow> Inl TypeError)"

text \<open>\<^verbatim>\<open>obj[key] = value\<close> with a string key.\<close>

definition setitem :: "json \<Rightarrow> string \<Rightarrow> json \<Rightarrow> json result" where
  "setitem obj key v =
     (case obj of JObj kvs \<Rightarrow> Inr (JObj (AList.update key v kvs)) | _ \<Rightarrow> Inl TypeError)"

text \<open>\<^verbatim>\<open>obj.get(key, default)\<close>: only a dictionary has the method.\<close>

definition get_method :: "json \<Rightarrow> string \<Rightarrow> json \<Rightarrow> json result" where
  "get_method obj key dflt =
     (case obj of
        JObj kvs \<Rightarrow> (case map_of kvs key of None \<Rightarrow> Inr dflt | Some v \<Rightarrow> Inr v)
      | _ \<Rightarrow> Inl AttributeError)"

text \<open>\<^verbatim>\<open>s.startswith(today)\<close>: only a string has the method.\<close>

definition startswith :: "json \<Rightarrow> string \<Rightarrow> bool result" where
  "startswith s today = (case s of JStr t \<Rightarrow> Inr (prefix today t) | _ \<Rightarrow> Inl AttributeError)"

text \<open>
  The elements a \<^verbatim>\<open>for\<close> loop or \<^verbatim>\<open>list.extend\<close> draws from an object: the
  elements of a list, the keys of a dictionary, the characters of a string.
\<close>

definition py_iter :: "json \<Rightarrow> json list result" where
  "py_iter obj =
     (case obj of
        JArr xs \<Rightarrow> Inr xs
      | JObj kvs \<Rightarrow> Inr (map (\<lambda>kv. JStr (fst kv)) kvs)
      | JStr s \<Rightarrow> Inr (map (\<lambda>c. JStr [c]) s)
      | _ \<Rightarrow> Inl TypeError)"

text \<open>\<^verbatim>\<open>target.extend(items)\<close>: only a list has the method; the items are iterated.\<close>

definition list_extend :: "json \<Rightarrow> json result \<Rightarrow> json result" where
  "list_extend target arg =
     (case target of
        JArr xs \<Rightarrow> ebind arg (\<lambda>items. ebind (py_iter items) (\<lambda>ys. Inr (JArr (xs @ ys))))
      | _ \<Rightarrow> Inl AttributeError)"

text \<open>\<^verbatim>\<open>target.append(item)\<close>: only a list has the method.\<close>

definition list_append :: "json \<Rightarrow> json \<Rightarrow> json result" where
  "list_append target item =
     (case target of JArr xs \<Rightarrow> Inr (JArr (xs @ [item])) | _ \<Rightarrow> Inl AttributeError)"

text \<open>
  A replacement field of an f-string: a string is inserted as it is, any other object
  through Python's \<^verbatim>\<open>str\<close>, which is a parameter \<open>py_str\<close> of the model.
\<close>

definition fmt :: "(json \<Rightarrow> string) \<Rightarrow> json \<Rightarrow> string" where
  "fmt py_str v = (case v of JStr s \<Rightarrow> s | _ \<Rightarrow> py_str v)"

section \<open>The log store\<close>

text \<open>
  What \<^verbatim>\<open>open(master_log_path)\<close> followed by \<^verbatim>\<open>json.load\<close> finds at the path:
  no file, a file that is not JSON, or a file holding a JSON value.
\<close>

datatype store = NoFile | Unparseable | File json

definition load :: "store \<Rightarrow> json result" where
  "load st =
     (case st of
        NoFile \<Rightarrow> Inr (JObj [(''workouts'', JArr [])])
      | Unparseable \<Rightarrow> Inl JSONDecodeError
      | File j \<Rightarrow> Inr j)"

section \<open>The merge: \<^verbatim>\<open>append_to_master_log\<close>\<close>

text \<open>
  Lines 134 to 140: the scan for a workout of today. The result is the position of
  the workout the loop stops at, since the program then mutates that object in place.
\<close>

fun find_existing :: "json list \<Rightarrow> string \<Rightarrow> nat option result" where
  "find_existing [] today = Inr None"
| "find_existing (workout # rest) today =
     ebind (get_method workout ''date'' (JStr '''')) (\<lambda>workout_date.
     ebind (startswith workout_date today) (\<lambda>hit.
       if hit then Inr (Some 0)
       else ebind (find_existing rest today) (\<lambda>r. Inr (map_option Suc r))))"

text \<open>Lines 143 to 156: the branch taken when \<^verbatim>\<open>existing_workout\<close> is true.\<close>

definition merge_exercises :: "json \<Rightarrow> json \<Rightarrow> json result" where
  "merge_exercises workout_data existing_workout =
     ebind (getitem existing_workout ''exercises'') (\<lambda>target.
     ebind (list_extend target (getitem workout_data ''exercises'')) (\<lambda>extended.
       setitem existing_workout ''exercises'' extended))"

definition merge_workout_type :: "json \<Rightarrow> json \<Rightarrow> json result" where
  "merge_workout_type workout_data existing_workout =
     ebind (get_method workout_data ''workout_type'' JNull) (\<lambda>t.
     ebind (if truthy t
            then ebind (getitem workout_data ''workout_type'') (\<lambda>new_type.
                 ebind (get_method existing_workout ''workout_type'' JNull) (\<lambda>old_type.
                   Inr (\<not> py_eq new_type old_type)))
            else Inr False) (\<lambda>changes.
       if changes then setitem existing_workout ''workout_type'' (JStr ''mixed'')
       else Inr existing_workout))"

definition merge_notes :: "(json \<Rightarrow> string) \<Rightarrow> json \<Rightarrow> json \<Rightarrow> json result" where
  "merge_notes py_str workout_data existing_workout =
     ebind (get_method workout_data ''notes'' JNull) (\<lambda>n.
       if truthy n
       then ebind (get_method existing_workout ''notes'' (JStr '''')) (\<lambda>existing_notes.
              if truthy existing_notes
              then ebind (getitem workout_data ''notes'') (\<lambda>new_notes.
                     setitem existing_workout ''notes''
                       (JStr (fmt py_str existing_notes @ ''; '' @ fmt py_str new_notes)))
              else ebind (getitem workout_data ''notes'') (\<lambda>new_notes.
                     setitem existing_workout ''notes'' new_notes))
       else Inr existing_workout)"

definition merge_existing :: "(json \<Rightarrow> string) \<Rightarrow> json \<Rightarrow> json \<Rightarrow> json result" where
  "merge_existing py_str workout_data existing_workout =
     ebind (merge_exercises workout_data existing_workout) (\<lambda>w1.
     ebind (merge_workout_type workout_data w1) (\<lambda>w2.
       merge_notes py_str workout_data w2))"

text \<open>Lines 161 and 162: the branch that creates a new workout.\<close>

definition create_workout :: "json \<Rightarrow> json \<Rightarrow> string \<Rightarrow> json result" where
  "create_workout workout_data master_log today =
     ebind (setitem workout_data ''date'' (JStr today)) (\<lambda>wd.
     ebind (getitem master_log ''workouts'') (\<lambda>target.
     ebind (list_append target wd) (\<lambda>appended.
       setitem master_log ''workouts'' appended)))"

text \<open>
  Lines 133 to 163 on the loaded log. \<^verbatim>\<open>existing_workout\<close> is an element of the list
  \<^verbatim>\<open>master_log["workouts"]\<close> and is changed in place, so the new log holds the merged
  workout at the position of the old one. The test \<^verbatim>\<open>if existing_workout:\<close> is the
  truth value of the object found, false as well when none was found.
\<close>

definition merge_into :: "(json \<Rightarrow> string) \<Rightarrow> json \<Rightarrow> json \<Rightarrow> string \<Rightarrow> json result" where
  "merge_into py_str workout_data master_log today =
     ebind (getitem master_log ''workouts'') (\<lambda>workouts.
     ebind (py_iter workouts) (\<lambda>ws.
     ebind (find_existing ws today) (\<lambda>found.
       case found of
         None \<Rightarrow> create_workout workout_data master_log today
       | Some i \<Rightarrow>
           if truthy (ws ! i)
           then ebind (merge_existing py_str workout_data (ws ! i)) (\<lambda>merged.
                  setitem master_log ''workouts'' (JArr (ws[i := merged])))
           else create_workout workout_data master_log today)))"

text \<open>Lines 118 to 121: the date of the merge; \<open>now\<close> is \<^verbatim>\<open>datetime.now().date().isoformat()\<close>.\<close>

definition today_of :: "string option \<Rightarrow> string \<Rightarrow> string" where
  "today_of date_override now =
     (case date_override of None \<Rightarrow> now | Some d \<Rightarrow> if d \<noteq> [] then d else now)"

text \<open>
  The whole function: the result of the call (an exception or a normal return) and
  the store it leaves. The file is written only by the last statement.
\<close>

definition append_to_master_log ::
  "(json \<Rightarrow> string) \<Rightarrow> json \<Rightarrow> store \<Rightarrow> string option \<Rightarrow> string \<Rightarrow> unit result \<times> store" where
  "append_to_master_log py_str workout_data st date_override now =
     (let today = today_of date_override now in
      case ebind (setitem workout_data ''date'' (JStr today)) (\<lambda>wd.
           ebind (load st) (\<lambda>master_log.
             merge_into py_str wd master_log today)) of
        Inl e \<Rightarrow> (Inl e, st)
      | Inr master_log' \<Rightarrow> (Inr (), File master_log'))"

text \<open>
  The script body (lines 172 to 224) on a file system. A path names a file through
  \<open>resolve\<close>, so that two spellings of one file are one file, and \<open>fs\<close> gives what
  \<^verbatim>\<open>json.load\<close> finds in each file. \<open>upstream\<close> is what steps 1 and 2 deliver:
  \<open>None\<close> when transcription or extraction raises or exits, the transcription and the
  extracted workout data otherwise. Step 3 then writes the transcription and the workout
  data to the two per-run files, named after the audio file, before step 4 merges into
  the log file; \<open>json_loads\<close> is the JSON parser, which decides what a later load finds
  in the transcription file. Every write succeeds in the model. The result is the exit
  status of the process and the file system it leaves.
\<close>

text \<open>\<^verbatim>\<open>audio_file.rsplit('.', 1)[0]\<close>: the name up to its last dot, all of it when it has none.\<close>

definition base_name :: "string \<Rightarrow> string" where
  "base_name audio_file =
     (if CHR ''.'' \<in> set audio_file
      then rev (tl (dropWhile (\<lambda>c. c \<noteq> CHR ''.'') (rev audio_file)))
      else audio_file)"

definition transcription_file :: "string list \<Rightarrow> string" where
  "transcription_file argv = base_name (argv ! 1) @ ''_transcription.txt''"

definition workout_file :: "string list \<Rightarrow> string" where
  "workout_file argv = base_name (argv ! 1) @ ''_workout.json''"

definition master_log_path :: "string list \<Rightarrow> string" where
  "master_log_path argv = (if length argv > 4 then argv ! 4 else ''workout_master_log.json'')"

definition date_override_of :: "string list \<Rightarrow> string option" where
  "date_override_of argv = (if length argv > 5 then Some (argv ! 5) else None)"

text \<open>What a later \<^verbatim>\<open>json.load\<close> finds in a file that holds a text.\<close>

definition written_text :: "(string \<Rightarrow> json option) \<Rightarrow> string \<Rightarrow> store" where
  "written_text json_loads t = (case json_loads t of None \<Rightarrow> Unparseable | Some j \<Rightarrow> File j)"

text \<open>Step 3 (lines 203 to 215): the transcription file, then the workout file.\<close>

definition save_run_files ::
  "(string \<Rightarrow> json option) \<Rightarrow> (string \<Rightarrow> 'f) \<Rightarrow> string list \<Rightarrow> string \<Rightarrow> json \<Rightarrow>
   ('f \<Rightarrow> store) \<Rightarrow> ('f \<Rightarrow> store)" where
  "save_run_files json_loads resolve argv transcription workout_data fs =
     (fs(resolve (transcription_file argv) := written_text json_loads transcription))
       (resolve (workout_file argv) := File workout_data)"

definition main ::
  "(json \<Rightarrow> string) \<Rightarrow> (string \<Rightarrow> json option) \<Rightarrow> (string \<Rightarrow> 'f) \<Rightarrow> string list \<Rightarrow>
   (string \<times> json) option \<Rightarrow> ('f \<Rightarrow> store) \<Rightarrow> string \<Rightarrow> nat \<times> ('f \<Rightarrow> store)" where
  "main py_str json_loads resolve argv upstream fs now =
     (if length argv < 2 then (1, fs)
      else case upstream of
        None \<Rightarrow> (1, fs)
      | Some (transcription, workout_data) \<Rightarrow>
          (let fs3 = save_run_files json_loads resolve argv transcription workout_data fs;
               log = resolve (master_log_path argv)
           in case append_to_master_log py_str workout_data (fs3 log) (date_override_of argv) now of
                (Inl e, st') \<Rightarrow> (1, fs3(log := st'))
              | (Inr u, st') \<Rightarrow> (0, fs3(log := st'))))"

section \<open>Observations used in the statements\<close>

text \<open>The value a workout (or any object) holds under a key, if it is a dictionary.\<close>

definition dict_get :: "json \<Rightarrow> string \<Rightarrow> json option" where
  "dict_get obj key = (case obj of JObj kvs \<Rightarrow> map_of kvs key | _ \<Rightarrow> None)"

text \<open>The stored date of a workout as the scan reads it: the empty string when absent.\<close>

definition stored_date :: "json \<Rightarrow> string" where
  "stored_date w = (case dict_get w ''date'' of Some (JStr s) \<Rightarrow> s | _ \<Rightarrow> [])"

text \<open>A workout whose date the scan can compare: a dictionary whose date is absent or a string.\<close>

definition scannable :: "json \<Rightarrow> bool" where
  "scannable w =
     (case w of
        JObj kvs \<Rightarrow> (case map_of kvs ''date'' of None \<Rightarrow> True | Some (JStr s) \<Rightarrow> True | Some _ \<Rightarrow> False)
      | _ \<Rightarrow> False)"

text \<open>
  A value for the parameter \<open>py_str\<close> in the closed examples: they format strings
  only, so the value chosen is never read.
\<close>

definition py_str_example :: "json \<Rightarrow> string" where
  "py_str_example v = ''<object>''"

text \<open>
  Values for the other parameters in the closed examples: every path is its own file, no
  transcription is JSON, and the only file is \<^verbatim>\<open>log.json\<close>, a log with one workout
  of 2 November 2025.
\<close>

definition path_itself :: "string \<Rightarrow> string" where
  "path_itself p = p"

definition not_json :: "string \<Rightarrow> json option" where
  "not_json t = None"

definition fs_example :: "string \<Rightarrow> store" where
  "fs_example p =
     (if p = ''log.json''
      then File (JObj [(''workouts'', JArr [JObj [(''date'', JStr ''2025-11-02''),
             (''exercises'', JArr [])]])])
      else NoFile)"

text \<open>
  The validation contract of section 4.2 of the specification, as a predicate on the
  incoming data: \<open>exercises\<close> is present and is a list of exercises, each a dictionary
  with a non-empty string as its name; the sets of an exercise, if present, are a list of
  dictionaries that each have a \<open>set_number\<close>. The program has no code that checks it.
\<close>

definition valid_set_entry :: "json \<Rightarrow> bool" where
  "valid_set_entry s = (case s of JObj kvs \<Rightarrow> map_of kvs ''set_number'' \<noteq> None | _ \<Rightarrow> False)"

definition valid_exercise :: "json \<Rightarrow> bool" where
  "valid_exercise e =
     (case e of
        JObj kvs \<Rightarrow>
          (case map_of kvs ''name'' of Some (JStr n) \<Rightarrow> n \<noteq> [] | _ \<Rightarrow> False) \<and>
          (case map_of kvs ''sets'' of
             None \<Rightarrow> True
           | Some JNull \<Rightarrow> True
           | Some (JArr ss) \<Rightarrow> list_all valid_set_entry ss
           | Some _ \<Rightarrow> False)
      | _ \<Rightarrow> False)"

definition valid_record :: "json \<Rightarrow> bool" where
  "valid_record wd =
     (case wd of
        JObj kvs \<Rightarrow>
          (case map_of kvs ''exercises'' of
             Some (JArr es) \<Rightarrow> list_all valid_exercise es
           | _ \<Rightarrow> False)
      | _ \<Rightarrow> False)"

text \<open>
  A well-formed log: a dictionary whose \<open>workouts\<close> are a list of workouts, each a
  dictionary with a string as its date and a list as its exercises. A well-formed store
  holds a well-formed log or nothing.
\<close>

definition wf_workout :: "json \<Rightarrow> bool" where
  "wf_workout w =
     (case w of
        JObj kvs \<Rightarrow>
          (case map_of kvs ''date'' of Some (JStr s) \<Rightarrow> True | _ \<Rightarrow> False) \<and>
          (case map_of kvs ''exercises'' of Some (JArr xs) \<Rightarrow> True | _ \<Rightarrow> False)
      | _ \<Rightarrow> False)"

definition wf_log :: "json \<Rightarrow> bool" where
  "wf_log lg =
     (case lg of
        JObj kvs \<Rightarrow>
          (case map_of kvs ''workouts'' of Some (JArr ws) \<Rightarrow> list_all wf_workout ws | _ \<Rightarrow> False)
      | _ \<Rightarrow> False)"

definition wf_store :: "store \<Rightarrow> bool" where
  "wf_store st = (case st of NoFile \<Rightarrow> True | Unparseable \<Rightarrow> False | File lg \<Rightarrow> wf_log lg)"

text \<open>The exercises of a workout, the workouts of a log and of a store.\<close>

definition exercises_of :: "json \<Rightarrow> json list" where
  "exercises_of w = (case dict_get w ''exercises'' of Some (JArr xs) \<Rightarrow> xs | _ \<Rightarrow> [])"

definition workouts_of :: "json \<Rightarrow> json list" where
  "workouts_of lg = (case dict_get lg ''workouts'' of Some (JArr ws) \<Rightarrow> ws | _ \<Rightarrow> [])"

definition stored_workouts :: "store \<Rightarrow> json list" where
  "stored_workouts st = (case load st of Inl e \<Rightarrow> [] | Inr lg \<Rightarrow> workouts_of lg)"

text \<open>
  The calendar date of a workout: the first ten characters of its stored date, which is
  the stored date itself when that is a date \<open>YYYY-MM-DD\<close> and its date part when it is
  a date-time. The invariant of the log: no two workouts have the same calendar date.
\<close>

definition calendar_date :: "json \<Rightarrow> string" where
  "calendar_date w = take 10 (stored_date w)"

definition one_per_date :: "json list \<Rightarrow> bool" where
  "one_per_date ws = distinct (map calendar_date ws)"

definition is_digit :: "char \<Rightarrow> bool" where
  "is_digit c = (c \<in> set ''0123456789'')"

definition iso_date :: "string \<Rightarrow> bool" where
  "iso_date d =
     (length d = 10 \<and> d ! 4 = CHR ''-'' \<and> d ! 7 = CHR ''-'' \<and>
      list_all is_digit (take 4 d @ take 2 (drop 5 d) @ drop 8 d))"

text \<open>A log in which every stored date is a calendar date \<open>YYYY-MM-DD\<close>, with no time part.\<close>

definition date_only :: "json list \<Rightarrow> bool" where
  "date_only ws = list_all (\<lambda>w. iso_date (stored_date w)) ws"

text \<open>The exercises logged under a calendar date, counted over the whole log.\<close>

definition day_total :: "string \<Rightarrow> json list \<Rightarrow> nat" where
  "day_total d ws =
     sum_list (map (\<lambda>w. if calendar_date w = d then length (exercises_of w) else 0) ws)"

text \<open>
  Runs of the program one after the other on the same store, one for each incoming
  record, all with the same date override; the first run that raises ends the sequence.
\<close>

fun sequential_merges ::
  "(json \<Rightarrow> string) \<Rightarrow> json list \<Rightarrow> store \<Rightarrow> string option \<Rightarrow> string \<Rightarrow> unit result \<times> store" where
  "sequential_merges py_str [] st date_override now = (Inr (), st)"
| "sequential_merges py_str (wd # wds) st date_override now =
     (case append_to_master_log py_str wd st date_override now of
        (Inl e, st') \<Rightarrow> (Inl e, st')
      | (Inr u, st') \<Rightarrow> sequential_merges py_str wds st' date_override now)"

section \<open>Basic facts about the operations\<close>

lemma ebind_simps [simp]: "ebind (Inl e) f = Inl e" "ebind (Inr x) f = f x"
  by (simp_all add: ebind_def)

lemma ebind_eq_Inr: "ebind m f = Inr y \<longleftrightarrow> (\<exists>x. m = Inr x \<and> f x = Inr y)"
  by (cases m) simp_all

lemma getitem_JObj [simp]:
  "getitem (JObj kvs) k = (case map_of kvs k of None \<Rightarrow> Inl KeyError | Some v \<Rightarrow> Inr v)"
  by (simp add: getitem_def)

lemma setitem_JObj [simp]: "setitem (JObj kvs) k v = Inr (JObj (AList.update k v kvs))"
  by (simp add: setitem_def)

lemma get_method_JObj [simp]:
  "get_method (JObj kvs) k d = Inr (case map_of kvs k of None \<Rightarrow> d | Some v \<Rightarrow> v)"
  by (simp add: get_method_def split: option.splits)

lemma startswith_JStr [simp]: "startswith (JStr s) today = Inr (prefix today s)"
  by (simp add: startswith_def)

lemma py_eq_JStr: "py_eq (JStr s) y \<longleftrightarrow> y = JStr s"
  by (cases y) auto

text \<open>One step of the scan on a workout whose date can be compared.\<close>

lemma find_existing_scannable_Cons:
  "scannable w \<Longrightarrow>
   find_existing (w # ws) today =
     (if prefix today (stored_date w) then Inr (Some 0)
      else ebind (find_existing ws today) (\<lambda>r. Inr (map_option Suc r)))"
  by (auto simp: scannable_def stored_date_def dict_get_def split: json.splits option.splits)

lemma find_existing_scan:
  "list_all scannable ws \<Longrightarrow>
   \<exists>r. find_existing ws today = Inr r \<and>
     (case r of
        None \<Rightarrow> \<forall>w \<in> set ws. \<not> prefix today (stored_date w)
      | Some i \<Rightarrow> i < length ws \<and> prefix today (stored_date (ws ! i)) \<and>
          (\<forall>j < i. \<not> prefix today (stored_date (ws ! j))))"
proof (induction ws)
  case Nil
  show ?case by simp
next
  case (Cons w ws)
  from Cons.prems have w: "scannable w" and ws: "list_all scannable ws" by simp_all
  from Cons.IH [OF ws] obtain r where r: "find_existing ws today = Inr r"
    and rest: "case r of
        None \<Rightarrow> \<forall>w \<in> set ws. \<not> prefix today (stored_date w)
      | Some i \<Rightarrow> i < length ws \<and> prefix today (stored_date (ws ! i)) \<and>
          (\<forall>j < i. \<not> prefix today (stored_date (ws ! j)))" by blast
  show ?case
  proof (cases "prefix today (stored_date w)")
    case True
    then show ?thesis by (simp add: find_existing_scannable_Cons [OF w] del: find_existing.simps)
  next
    case False
    have eq: "find_existing (w # ws) today = Inr (map_option Suc r)"
      using False r by (simp add: find_existing_scannable_Cons [OF w] del: find_existing.simps)
    show ?thesis
    proof (cases r)
      case None
      with rest False eq show ?thesis by simp
    next
      case (Some i)
      with rest have i: "i < length ws" "prefix today (stored_date (ws ! i))"
        and before: "\<forall>j < i. \<not> prefix today (stored_date (ws ! j))" by simp_all
      have "\<forall>j < Suc i. \<not> prefix today (stored_date ((w # ws) ! j))"
        using False before by (auto simp: less_Suc_eq_0_disj)
      with i eq Some show ?thesis by simp
    qed
  qed
qed

text \<open>What a successful scan says about the workout it stops at, for any log.\<close>

lemma find_existing_Some:
  "find_existing ws today = Inr (Some i) \<Longrightarrow>
   i < length ws \<and> (\<exists>kvs. ws ! i = JObj kvs \<and>
     (case map_of kvs ''date'' of None \<Rightarrow> today = [] | Some v \<Rightarrow> \<exists>s. v = JStr s \<and> prefix today s))"
proof (induction ws arbitrary: i)
  case Nil
  then show ?case by simp
next
  case (Cons w ws)
  from Cons.prems obtain kvs where w: "w = JObj kvs"
    by (cases w) (simp_all add: get_method_def)
  define d where "d = (case map_of kvs ''date'' of None \<Rightarrow> JStr [] | Some v \<Rightarrow> v)"
  from Cons.prems w obtain s where s: "d = JStr s"
    by (cases d) (simp_all add: d_def startswith_def)
  show ?case
  proof (cases "prefix today s")
    case True
    with Cons.prems w s have "i = 0" by (simp add: d_def)
    with True w s show ?thesis by (auto simp: d_def split: option.splits)
  next
    case False
    with Cons.prems w s obtain r where r: "find_existing ws today = Inr r" "map_option Suc r = Some i"
      by (auto simp: d_def ebind_eq_Inr)
    then obtain j where j: "r = Some j" "i = Suc j" by (cases r) auto
    from Cons.IH [of j] r j show ?thesis by simp
  qed
qed

lemma find_existing_truthy:
  assumes "find_existing ws today = Inr (Some i)" and "today \<noteq> []"
  shows "truthy (ws ! i)"
proof -
  from find_existing_Some [OF assms(1)] obtain kvs where k: "ws ! i = JObj kvs"
    and d: "case map_of kvs ''date'' of None \<Rightarrow> today = [] | Some v \<Rightarrow> \<exists>s. v = JStr s \<and> prefix today s"
    by blast
  from d assms(2) have "map_of kvs ''date'' \<noteq> None" by (auto split: option.splits)
  then have "kvs \<noteq> []" by auto
  with k show ?thesis by simp
qed

lemma merge_into_match:
  assumes "map_of lg ''workouts'' = Some (JArr ws)"
    and "find_existing ws today = Inr (Some i)" and "today \<noteq> []"
  shows "merge_into py_str wd (JObj lg) today =
     ebind (merge_existing py_str wd (ws ! i))
       (\<lambda>m. Inr (JObj (AList.update ''workouts'' (JArr (ws[i := m])) lg)))"
  using assms find_existing_truthy [OF assms(2,3)]
  by (simp add: merge_into_def py_iter_def)

lemma merge_into_no_match:
  assumes "map_of lg ''workouts'' = Some (JArr ws)"
    and "find_existing ws today = Inr None"
  shows "merge_into py_str (JObj wd) (JObj lg) today =
     Inr (JObj (AList.update ''workouts''
            (JArr (ws @ [JObj (AList.update ''date'' (JStr today) wd)])) lg))"
  using assms by (simp add: merge_into_def py_iter_def create_workout_def list_append_def)

lemma append_to_master_log_File:
  "append_to_master_log py_str (JObj wd) (File lg) date_override now =
     (case merge_into py_str (JObj (AList.update ''date'' (JStr (today_of date_override now)) wd))
             lg (today_of date_override now) of
        Inl e \<Rightarrow> (Inl e, File lg)
      | Inr lg' \<Rightarrow> (Inr (), File lg'))"
  by (simp add: append_to_master_log_def load_def Let_def)

lemma append_to_master_log_NoFile:
  "append_to_master_log py_str (JObj wd) NoFile date_override now =
     (Inr (), File (JObj [(''workouts'',
        JArr [JObj (AList.update ''date'' (JStr (today_of date_override now)) wd)])]))"
  by (simp add: append_to_master_log_def load_def merge_into_def py_iter_def
      create_workout_def list_append_def Let_def)

lemma merge_exercises_JObj:
  "merge_exercises (JObj wd) (JObj ex) =
     (case map_of ex ''exercises'' of
        None \<Rightarrow> Inl KeyError
      | Some t \<Rightarrow>
          (case t of
             JArr xs \<Rightarrow>
               (case map_of wd ''exercises'' of
                  None \<Rightarrow> Inl KeyError
                | Some v \<Rightarrow> ebind (py_iter v)
                    (\<lambda>ys. Inr (JObj (AList.update ''exercises'' (JArr (xs @ ys)) ex))))
           | _ \<Rightarrow> Inl AttributeError))"
  by (auto simp: merge_exercises_def list_extend_def ebind_def
      split: option.splits json.splits sum.splits)

lemma merge_workout_type_JObj:
  "merge_workout_type (JObj wd) (JObj ex) =
     Inr (JObj (if (case map_of wd ''workout_type'' of
                      None \<Rightarrow> False
                    | Some t \<Rightarrow> truthy t \<and>
                        \<not> py_eq t (case map_of ex ''workout_type'' of None \<Rightarrow> JNull | Some v \<Rightarrow> v))
                then AList.update ''workout_type'' (JStr ''mixed'') ex else ex))"
  by (simp add: merge_workout_type_def split: option.splits)

lemma merge_notes_JObj:
  "merge_notes py_str (JObj wd) (JObj ex) =
     Inr (JObj (case map_of wd ''notes'' of
                  None \<Rightarrow> ex
                | Some n \<Rightarrow>
                    if truthy n
                    then (case map_of ex ''notes'' of
                            None \<Rightarrow> AList.update ''notes'' n ex
                          | Some e \<Rightarrow>
                              if truthy e
                              then AList.update ''notes''
                                     (JStr (fmt py_str e @ ''; '' @ fmt py_str n)) ex
                              else AList.update ''notes'' n ex)
                    else ex))"
  by (simp add: merge_notes_def split: option.splits)

lemma merge_existing_fields:
  assumes "merge_existing py_str (JObj wd) (JObj ex) = Inr m"
  shows "\<exists>kvs xs v ys. m = JObj kvs \<and>
     map_of ex ''exercises'' = Some (JArr xs) \<and> map_of wd ''exercises'' = Some v \<and>
     py_iter v = Inr ys \<and>
     map_of kvs ''exercises'' = Some (JArr (xs @ ys)) \<and>
     map_of kvs ''workout_type'' =
       (if (case map_of wd ''workout_type'' of
              None \<Rightarrow> False
            | Some t \<Rightarrow> truthy t \<and>
                \<not> py_eq t (case map_of ex ''workout_type'' of None \<Rightarrow> JNull | Some v \<Rightarrow> v))
        then Some (JStr ''mixed'') else map_of ex ''workout_type'') \<and>
     map_of kvs ''notes'' =
       (case map_of wd ''notes'' of
          None \<Rightarrow> map_of ex ''notes''
        | Some n \<Rightarrow>
            if truthy n
            then (case map_of ex ''notes'' of
                    None \<Rightarrow> Some n
                  | Some e \<Rightarrow>
                      if truthy e then Some (JStr (fmt py_str e @ ''; '' @ fmt py_str n))
                      else Some n)
            else map_of ex ''notes'') \<and>
     (\<forall>k. k \<noteq> ''exercises'' \<and> k \<noteq> ''workout_type'' \<and> k \<noteq> ''notes'' \<longrightarrow>
        map_of kvs k = map_of ex k)"
proof -
  from assms obtain w1 w2 where 1: "merge_exercises (JObj wd) (JObj ex) = Inr w1"
    and 2: "merge_workout_type (JObj wd) w1 = Inr w2"
    and 3: "merge_notes py_str (JObj wd) w2 = Inr m"
    by (auto simp: merge_existing_def ebind_eq_Inr)
  from 1 obtain xs v ys where ex: "map_of ex ''exercises'' = Some (JArr xs)"
    and wd: "map_of wd ''exercises'' = Some v" and ys: "py_iter v = Inr ys"
    and w1: "w1 = JObj (AList.update ''exercises'' (JArr (xs @ ys)) ex)"
    by (auto simp: merge_exercises_JObj ebind_eq_Inr split: option.splits json.splits)
  define e1 where "e1 = AList.update ''exercises'' (JArr (xs @ ys)) ex"
  have e1: "map_of e1 = (map_of ex)(''exercises'' \<mapsto> JArr (xs @ ys))"
    by (simp add: e1_def update_conv')
  have w1': "w1 = JObj e1" by (simp add: w1 e1_def)
  define e2 where "e2 = (if (case map_of wd ''workout_type'' of
                      None \<Rightarrow> False
                    | Some t \<Rightarrow> truthy t \<and>
                        \<not> py_eq t (case map_of e1 ''workout_type'' of None \<Rightarrow> JNull | Some v \<Rightarrow> v))
                then AList.update ''workout_type'' (JStr ''mixed'') e1 else e1)"
  have w2: "w2 = JObj e2"
    using 2 unfolding w1' merge_workout_type_JObj e2_def by simp
  note e2 = e2_def
  have e1t: "map_of e1 ''workout_type'' = map_of ex ''workout_type''"
    and e1n: "map_of e1 ''notes'' = map_of ex ''notes''"
    by (simp_all add: e1)
  have e2n: "map_of e2 ''notes'' = map_of ex ''notes''"
    by (simp add: e2 update_conv' e1n)
  define e3 where "e3 = (case map_of wd ''notes'' of
                  None \<Rightarrow> e2
                | Some n \<Rightarrow>
                    if truthy n
                    then (case map_of e2 ''notes'' of
                            None \<Rightarrow> AList.update ''notes'' n e2
                          | Some e \<Rightarrow>
                              if truthy e
                              then AList.update ''notes''
                                     (JStr (fmt py_str e @ ''; '' @ fmt py_str n)) e2
                              else AList.update ''notes'' n e2)
                    else e2)"
  have m: "m = JObj e3"
    using 3 unfolding w2 merge_notes_JObj e3_def by simp
  note e3 = e3_def
  have e3_other: "map_of e3 k = map_of e2 k" if "k \<noteq> ''notes''" for k
    using that by (simp add: e3 update_conv' split: option.splits)
  have e2_other: "map_of e2 k = map_of e1 k" if "k \<noteq> ''workout_type''" for k
    using that by (simp add: e2 update_conv')
  have e1_other: "map_of e1 k = map_of ex k" if "k \<noteq> ''exercises''" for k
    using that by (simp add: e1)
  have a: "map_of e3 ''exercises'' = Some (JArr (xs @ ys))"
    by (simp add: e3_other e2_other e1)
  have "map_of e2 ''workout_type'' =
       (if (case map_of wd ''workout_type'' of
              None \<Rightarrow> False
            | Some t \<Rightarrow> truthy t \<and>
                \<not> py_eq t (case map_of e1 ''workout_type'' of None \<Rightarrow> JNull | Some v \<Rightarrow> v))
        then Some (JStr ''mixed'') else map_of e1 ''workout_type'')"
    unfolding e2 by (simp add: update_conv')
  then have b: "map_of e3 ''workout_type'' =
       (if (case map_of wd ''workout_type'' of
              None \<Rightarrow> False
            | Some t \<Rightarrow> truthy t \<and>
                \<not> py_eq t (case map_of ex ''workout_type'' of None \<Rightarrow> JNull | Some v \<Rightarrow> v))
        then Some (JStr ''mixed'') else map_of ex ''workout_type'')"
    unfolding e1t by (simp add: e3_other)
  have "map_of e3 ''notes'' =
       (case map_of wd ''notes'' of
          None \<Rightarrow> map_of e2 ''notes''
        | Some n \<Rightarrow>
            if truthy n
            then (case map_of e2 ''notes'' of
                    None \<Rightarrow> Some n
                  | Some e \<Rightarrow>
                      if truthy e then Some (JStr (fmt py_str e @ ''; '' @ fmt py_str n))
                      else Some n)
            else map_of e2 ''notes'')"
    unfolding e3 by (simp add: update_conv' split: option.splits)
  then have c: "map_of e3 ''notes'' =
       (case map_of wd ''notes'' of
          None \<Rightarrow> map_of ex ''notes''
        | Some n \<Rightarrow>
            if truthy n
            then (case map_of ex ''notes'' of
                    None \<Rightarrow> Some n
                  | Some e \<Rightarrow>
                      if truthy e then Some (JStr (fmt py_str e @ ''; '' @ fmt py_str n))
                      else Some n)
            else map_of ex ''notes'')"
    unfolding e2n .
  have d: "\<forall>k. k \<noteq> ''exercises'' \<and> k \<noteq> ''workout_type'' \<and> k \<noteq> ''notes'' \<longrightarrow>
        map_of e3 k = map_of ex k"
    by (simp add: e3_other e2_other e1_other)
  from m ex wd ys a b c d show ?thesis by blast
qed

lemma merge_into_cases:
  assumes lg: "map_of lg ''workouts'' = Some (JArr ws)" and today: "today \<noteq> []"
    and ok: "merge_into py_str (JObj wd) (JObj lg) today = Inr lg'"
  shows "(find_existing ws today = Inr None \<and>
          lg' = JObj (AList.update ''workouts''
                  (JArr (ws @ [JObj (AList.update ''date'' (JStr today) wd)])) lg)) \<or>
         (\<exists>i m. find_existing ws today = Inr (Some i) \<and>
            merge_existing py_str (JObj wd) (ws ! i) = Inr m \<and>
            lg' = JObj (AList.update ''workouts'' (JArr (ws[i := m])) lg))"
proof (cases "find_existing ws today")
  case (Inl e)
  with lg ok show ?thesis by (simp add: merge_into_def py_iter_def)
next
  case (Inr r)
  show ?thesis
  proof (cases r)
    case None
    with Inr have n: "find_existing ws today = Inr None" by simp
    from ok show ?thesis unfolding merge_into_no_match [OF lg n] using n by simp
  next
    case (Some i)
    with Inr have s: "find_existing ws today = Inr (Some i)" by simp
    from ok show ?thesis unfolding merge_into_match [OF lg s today] using s
      by (auto simp: ebind_eq_Inr)
  qed
qed

lemma merge_into_match_fields:
  assumes lg: "map_of lg ''workouts'' = Some (JArr ws)"
    and found: "find_existing ws today = Inr (Some i)" and today: "today \<noteq> []"
    and ok: "merge_into py_str (JObj wd) (JObj lg) today = Inr lg'"
  shows "\<exists>ex kvs. ws ! i = JObj ex \<and> i < length ws \<and>
     merge_existing py_str (JObj wd) (JObj ex) = Inr (JObj kvs) \<and>
     lg' = JObj (AList.update ''workouts'' (JArr (ws[i := JObj kvs])) lg)"
proof -
  from find_existing_Some [OF found] obtain ex where i: "i < length ws" and ex: "ws ! i = JObj ex"
    by blast
  from ok obtain m where m: "merge_existing py_str (JObj wd) (ws ! i) = Inr m"
    and lg': "lg' = JObj (AList.update ''workouts'' (JArr (ws[i := m])) lg)"
    unfolding merge_into_match [OF lg found today] by (auto simp: ebind_eq_Inr)
  from merge_existing_fields [OF m [unfolded ex]] obtain kvs where "m = JObj kvs" by blast
  with i ex m lg' show ?thesis by auto
qed

lemma dict_get_JObj [simp]: "dict_get (JObj kvs) k = map_of kvs k"
  by (simp add: dict_get_def)

lemma merge_existing_workout_type:
  assumes "merge_existing py_str (JObj wd) (JObj ex) = Inr (JObj kvs)"
  shows "map_of kvs ''workout_type'' =
       (if (case map_of wd ''workout_type'' of
              None \<Rightarrow> False
            | Some t \<Rightarrow> truthy t \<and>
                \<not> py_eq t (case map_of ex ''workout_type'' of None \<Rightarrow> JNull | Some v \<Rightarrow> v))
        then Some (JStr ''mixed'') else map_of ex ''workout_type'')"
proof -
  from merge_existing_fields [OF assms] obtain kvs' where k: "JObj kvs = JObj kvs'"
    and t: "map_of kvs' ''workout_type'' =
       (if (case map_of wd ''workout_type'' of
              None \<Rightarrow> False
            | Some t \<Rightarrow> truthy t \<and>
                \<not> py_eq t (case map_of ex ''workout_type'' of None \<Rightarrow> JNull | Some v \<Rightarrow> v))
        then Some (JStr ''mixed'') else map_of ex ''workout_type'')"
    by (elim exE conjE)
  from k have "kvs' = kvs" by simp
  with t show ?thesis by (simp only:)
qed

lemma merge_existing_notes:
  assumes "merge_existing py_str (JObj wd) (JObj ex) = Inr (JObj kvs)"
  shows "map_of kvs ''notes'' =
       (case map_of wd ''notes'' of
          None \<Rightarrow> map_of ex ''notes''
        | Some n \<Rightarrow>
            if truthy n
            then (case map_of ex ''notes'' of
                    None \<Rightarrow> Some n
                  | Some e \<Rightarrow>
                      if truthy e then Some (JStr (fmt py_str e @ ''; '' @ fmt py_str n))
                      else Some n)
            else map_of ex ''notes'')"
proof -
  from merge_existing_fields [OF assms] obtain kvs' where k: "JObj kvs = JObj kvs'"
    and t: "map_of kvs' ''notes'' =
       (case map_of wd ''notes'' of
          None \<Rightarrow> map_of ex ''notes''
        | Some n \<Rightarrow>
            if truthy n
            then (case map_of ex ''notes'' of
                    None \<Rightarrow> Some n
                  | Some e \<Rightarrow>
                      if truthy e then Some (JStr (fmt py_str e @ ''; '' @ fmt py_str n))
                      else Some n)
            else map_of ex ''notes'')"
    by (elim exE conjE)
  from k have "kvs' = kvs" by simp
  with t show ?thesis by (simp only:)
qed

lemma merge_existing_exercises:
  assumes "merge_existing py_str (JObj wd) (JObj ex) = Inr (JObj kvs)"
  shows "\<exists>xs v ys. map_of ex ''exercises'' = Some (JArr xs) \<and>
     map_of wd ''exercises'' = Some v \<and> py_iter v = Inr ys \<and>
     map_of kvs ''exercises'' = Some (JArr (xs @ ys))"
proof -
  from merge_existing_fields [OF assms] obtain kvs' xs v ys where k: "JObj kvs = JObj kvs'"
    and t: "map_of ex ''exercises'' = Some (JArr xs)" "map_of wd ''exercises'' = Some v"
      "py_iter v = Inr ys" "map_of kvs' ''exercises'' = Some (JArr (xs @ ys))"
    by (elim exE conjE)
  from k have "kvs' = kvs" by simp
  with t show ?thesis by blast
qed

lemma merge_existing_other:
  assumes "merge_existing py_str (JObj wd) (JObj ex) = Inr (JObj kvs)"
    and "k \<noteq> ''exercises''" "k \<noteq> ''workout_type''" "k \<noteq> ''notes''"
  shows "map_of kvs k = map_of ex k"
proof -
  from merge_existing_fields [OF assms(1)] obtain kvs' where k: "JObj kvs = JObj kvs'"
    and t: "\<forall>k. k \<noteq> ''exercises'' \<and> k \<noteq> ''workout_type'' \<and> k \<noteq> ''notes'' \<longrightarrow>
        map_of kvs' k = map_of ex k"
    by (elim exE conjE)
  from k have "kvs' = kvs" by simp
  with t assms(2-) show ?thesis by blast
qed

section \<open>Reconciliation of the workout type\<close>

text \<open>
  Claim C4. In a merge that finds a matching workout (the scan stops at position \<open>i\<close>)
  and returns: if the incoming record has a non-empty string as its workout type and the
  matched workout has a different value (or none) under that key, the matched workout's
  type becomes \<open>mixed\<close>; if both hold the same string, or the incoming record has no
  type (absent, null or the empty string), the type of the matched workout is unchanged.
\<close>

theorem workout_type_reconciled:
  assumes lg: "map_of lg ''workouts'' = Some (JArr ws)"
    and found: "find_existing ws today = Inr (Some i)" and today: "today \<noteq> []"
    and ok: "merge_into py_str (JObj wd) (JObj lg) today = Inr lg'"
  shows "\<exists>ws'. lg' = JObj (AList.update ''workouts'' (JArr ws') lg) \<and> length ws' = length ws \<and>
     (\<forall>t. map_of wd ''workout_type'' = Some (JStr t) \<and> t \<noteq> [] \<and>
          dict_get (ws ! i) ''workout_type'' \<noteq> Some (JStr t) \<longrightarrow>
          dict_get (ws' ! i) ''workout_type'' = Some (JStr ''mixed'')) \<and>
     (\<forall>t. map_of wd ''workout_type'' = Some (JStr t) \<and>
          dict_get (ws ! i) ''workout_type'' = Some (JStr t) \<longrightarrow>
          dict_get (ws' ! i) ''workout_type'' = Some (JStr t)) \<and>
     (map_of wd ''workout_type'' = None \<or> map_of wd ''workout_type'' = Some JNull \<or>
      map_of wd ''workout_type'' = Some (JStr []) \<longrightarrow>
          dict_get (ws' ! i) ''workout_type'' = dict_get (ws ! i) ''workout_type'')"
proof -
  from merge_into_match_fields [OF lg found today ok] obtain ex kvs
    where ex: "ws ! i = JObj ex" and i: "i < length ws"
      and m: "merge_existing py_str (JObj wd) (JObj ex) = Inr (JObj kvs)"
      and lg': "lg' = JObj (AList.update ''workouts'' (JArr (ws[i := JObj kvs])) lg)"
    by blast
  note t = merge_existing_workout_type [OF m]
  have new: "dict_get (ws[i := JObj kvs] ! i) ''workout_type'' = map_of kvs ''workout_type''"
    using i by simp
  have old: "dict_get (ws ! i) ''workout_type'' = map_of ex ''workout_type''"
    by (simp add: ex)
  have 1: "map_of kvs ''workout_type'' = Some (JStr ''mixed'')"
    if "map_of wd ''workout_type'' = Some (JStr t)" "t \<noteq> []"
      "map_of ex ''workout_type'' \<noteq> Some (JStr t)" for t
  proof -
    have "\<not> py_eq (JStr t) (case map_of ex ''workout_type'' of None \<Rightarrow> JNull | Some v \<Rightarrow> v)"
      using that(3) by (cases "map_of ex ''workout_type''") (simp_all add: py_eq_JStr del: py_eq.simps)
    with that(1,2) show ?thesis unfolding t by simp
  qed
  have 2: "map_of kvs ''workout_type'' = Some (JStr t)"
    if "map_of wd ''workout_type'' = Some (JStr t)" "map_of ex ''workout_type'' = Some (JStr t)" for t
    using that unfolding t by (simp add: py_eq_JStr del: py_eq.simps)
  have 3: "map_of kvs ''workout_type'' = map_of ex ''workout_type''"
    if "map_of wd ''workout_type'' = None \<or> map_of wd ''workout_type'' = Some JNull \<or>
      map_of wd ''workout_type'' = Some (JStr [])"
    using that unfolding t by auto
  have c1: "\<forall>t. map_of wd ''workout_type'' = Some (JStr t) \<and> t \<noteq> [] \<and>
          dict_get (ws ! i) ''workout_type'' \<noteq> Some (JStr t) \<longrightarrow>
          dict_get (ws[i := JObj kvs] ! i) ''workout_type'' = Some (JStr ''mixed'')"
    unfolding new old using 1 by blast
  have c2: "\<forall>t. map_of wd ''workout_type'' = Some (JStr t) \<and>
          dict_get (ws ! i) ''workout_type'' = Some (JStr t) \<longrightarrow>
          dict_get (ws[i := JObj kvs] ! i) ''workout_type'' = Some (JStr t)"
    unfolding new old using 2 by blast
  have c3: "map_of wd ''workout_type'' = None \<or> map_of wd ''workout_type'' = Some JNull \<or>
      map_of wd ''workout_type'' = Some (JStr []) \<longrightarrow>
          dict_get (ws[i := JObj kvs] ! i) ''workout_type'' = dict_get (ws ! i) ''workout_type''"
    unfolding new old using 3 by blast
  have c0: "length (ws[i := JObj kvs]) = length ws" by simp
  from lg' c0 c1 c2 c3 show ?thesis by blast
qed

text \<open>Merging \<open>cardio\<close> into a workout of type \<open>strength\<close> yields \<open>mixed\<close>.\<close>

theorem workout_type_reconciled_witness:
  "merge_into py_str_example
     (JObj [(''exercises'', JArr []), (''workout_type'', JStr ''cardio'')])
     (JObj [(''workouts'', JArr [JObj [(''date'', JStr ''2025-11-01''), (''exercises'', JArr []),
       (''workout_type'', JStr ''strength'')]])]) ''2025-11-01'' =
     Inr (JObj [(''workouts'', JArr [JObj [(''date'', JStr ''2025-11-01''), (''exercises'', JArr []),
       (''workout_type'', JStr ''mixed'')]])]) \<and>
   (\<exists>ws'. JObj [(''workouts'', JArr [JObj [(''date'', JStr ''2025-11-01''), (''exercises'', JArr []),
       (''workout_type'', JStr ''mixed'')]])] = JObj [(''workouts'', JArr ws')] \<and>
       dict_get (ws' ! 0) ''workout_type'' = Some (JStr ''mixed''))"
proof -
  let ?w = "JObj [(''date'', JStr ''2025-11-01''), (''exercises'', JArr []),
       (''workout_type'', JStr ''strength'')]"
  let ?wd = "[(''exercises'', JArr []), (''workout_type'', JStr ''cardio'')]"
  let ?lg = "[(''workouts'', JArr [?w])]"
  let ?lg' = "JObj [(''workouts'', JArr [JObj [(''date'', JStr ''2025-11-01''), (''exercises'', JArr []),
       (''workout_type'', JStr ''mixed'')]])]"
  have h1: "map_of ?lg ''workouts'' = Some (JArr [?w])" by simp
  have h2: "find_existing [?w] ''2025-11-01'' = Inr (Some 0)" by simp
  have h3: "''2025-11-01'' \<noteq> []" by simp
  have h4: "merge_into py_str_example (JObj ?wd) (JObj ?lg) ''2025-11-01'' = Inr ?lg'"
    by (simp add: merge_into_match [OF h1 h2 h3] merge_existing_def merge_exercises_JObj
        merge_workout_type_JObj merge_notes_JObj py_iter_def)
  have u: "AList.update ''workouts'' v ?lg = [(''workouts'', v)]" for v by simp
  from workout_type_reconciled [OF h1 h2 h3 h4] obtain ws'
    where a: "?lg' = JObj (AList.update ''workouts'' (JArr ws') ?lg)"
      and b: "\<forall>t. map_of ?wd ''workout_type'' = Some (JStr t) \<and> t \<noteq> [] \<and>
          dict_get ([?w] ! 0) ''workout_type'' \<noteq> Some (JStr t) \<longrightarrow>
          dict_get (ws' ! 0) ''workout_type'' = Some (JStr ''mixed'')"
    by (elim exE conjE)
  from b have "dict_get (ws' ! 0) ''workout_type'' = Some (JStr ''mixed'')" by simp
  with a [unfolded u] h4 show ?thesis by blast
qed

section \<open>Reconciliation of the notes\<close>

text \<open>
  Claim C5. In a merge that finds a matching workout and returns: if the incoming notes
  and the existing notes are both non-empty strings, the notes of the matched workout
  become the existing notes, the separator \<open>; \<close> and the incoming notes; if the
  existing notes are empty (absent, null or the empty string), the incoming notes are
  stored as they are; if the incoming notes are empty, the existing notes are untouched.
\<close>

theorem notes_reconciled:
  assumes lg: "map_of lg ''workouts'' = Some (JArr ws)"
    and found: "find_existing ws today = Inr (Some i)" and today: "today \<noteq> []"
    and ok: "merge_into py_str (JObj wd) (JObj lg) today = Inr lg'"
  shows "\<exists>ws'. lg' = JObj (AList.update ''workouts'' (JArr ws') lg) \<and> length ws' = length ws \<and>
     (\<forall>n e. map_of wd ''notes'' = Some (JStr n) \<and> n \<noteq> [] \<and>
          dict_get (ws ! i) ''notes'' = Some (JStr e) \<and> e \<noteq> [] \<longrightarrow>
          dict_get (ws' ! i) ''notes'' = Some (JStr (e @ ''; '' @ n))) \<and>
     (\<forall>n. map_of wd ''notes'' = Some (JStr n) \<and> n \<noteq> [] \<and>
          (dict_get (ws ! i) ''notes'' = None \<or> dict_get (ws ! i) ''notes'' = Some JNull \<or>
           dict_get (ws ! i) ''notes'' = Some (JStr [])) \<longrightarrow>
          dict_get (ws' ! i) ''notes'' = Some (JStr n)) \<and>
     (map_of wd ''notes'' = None \<or> map_of wd ''notes'' = Some JNull \<or>
      map_of wd ''notes'' = Some (JStr []) \<longrightarrow>
          dict_get (ws' ! i) ''notes'' = dict_get (ws ! i) ''notes'')"
proof -
  from merge_into_match_fields [OF lg found today ok] obtain ex kvs
    where ex: "ws ! i = JObj ex" and i: "i < length ws"
      and m: "merge_existing py_str (JObj wd) (JObj ex) = Inr (JObj kvs)"
      and lg': "lg' = JObj (AList.update ''workouts'' (JArr (ws[i := JObj kvs])) lg)"
    by blast
  note t = merge_existing_notes [OF m]
  have new: "dict_get (ws[i := JObj kvs] ! i) ''notes'' = map_of kvs ''notes''"
    using i by simp
  have old: "dict_get (ws ! i) ''notes'' = map_of ex ''notes''"
    by (simp add: ex)
  have 1: "map_of kvs ''notes'' = Some (JStr (e @ ''; '' @ n))"
    if "map_of wd ''notes'' = Some (JStr n)" "n \<noteq> []"
      "map_of ex ''notes'' = Some (JStr e)" "e \<noteq> []" for n e
    using that unfolding t by (simp add: fmt_def)
  have 2: "map_of kvs ''notes'' = Some (JStr n)"
    if "map_of wd ''notes'' = Some (JStr n)" "n \<noteq> []"
      "map_of ex ''notes'' = None \<or> map_of ex ''notes'' = Some JNull \<or>
       map_of ex ''notes'' = Some (JStr [])" for n
    using that unfolding t by auto
  have 3: "map_of kvs ''notes'' = map_of ex ''notes''"
    if "map_of wd ''notes'' = None \<or> map_of wd ''notes'' = Some JNull \<or>
      map_of wd ''notes'' = Some (JStr [])"
    using that unfolding t by auto
  have c1: "\<forall>n e. map_of wd ''notes'' = Some (JStr n) \<and> n \<noteq> [] \<and>
          dict_get (ws ! i) ''notes'' = Some (JStr e) \<and> e \<noteq> [] \<longrightarrow>
          dict_get (ws[i := JObj kvs] ! i) ''notes'' = Some (JStr (e @ ''; '' @ n))"
    unfolding new old using 1 by blast
  have c2: "\<forall>n. map_of wd ''notes'' = Some (JStr n) \<and> n \<noteq> [] \<and>
          (dict_get (ws ! i) ''notes'' = None \<or> dict_get (ws ! i) ''notes'' = Some JNull \<or>
           dict_get (ws ! i) ''notes'' = Some (JStr [])) \<longrightarrow>
          dict_get (ws[i := JObj kvs] ! i) ''notes'' = Some (JStr n)"
    unfolding new old using 2 by blast
  have c3: "map_of wd ''notes'' = None \<or> map_of wd ''notes'' = Some JNull \<or>
      map_of wd ''notes'' = Some (JStr []) \<longrightarrow>
          dict_get (ws[i := JObj kvs] ! i) ''notes'' = dict_get (ws ! i) ''notes''"
    unfolding new old using 3 by blast
  have c0: "length (ws[i := JObj kvs]) = length ws" by simp
  from lg' c0 c1 c2 c3 show ?thesis by blast
qed

text \<open>Merging the notes \<open>felt great\<close> into \<open>tired\<close> yields \<open>tired; felt great\<close>.\<close>

theorem notes_reconciled_witness:
  "merge_into py_str_example
     (JObj [(''exercises'', JArr []), (''notes'', JStr ''felt great'')])
     (JObj [(''workouts'', JArr [JObj [(''date'', JStr ''2025-11-01''), (''exercises'', JArr []),
       (''notes'', JStr ''tired'')]])]) ''2025-11-01'' =
     Inr (JObj [(''workouts'', JArr [JObj [(''date'', JStr ''2025-11-01''), (''exercises'', JArr []),
       (''notes'', JStr ''tired; felt great'')]])]) \<and>
   (\<exists>ws'. JObj [(''workouts'', JArr [JObj [(''date'', JStr ''2025-11-01''), (''exercises'', JArr []),
       (''notes'', JStr ''tired; felt great'')]])] = JObj [(''workouts'', JArr ws')] \<and>
       dict_get (ws' ! 0) ''notes'' = Some (JStr ''tired; felt great''))"
proof -
  let ?w = "JObj [(''date'', JStr ''2025-11-01''), (''exercises'', JArr []),
       (''notes'', JStr ''tired'')]"
  let ?wd = "[(''exercises'', JArr []), (''notes'', JStr ''felt great'')]"
  let ?lg = "[(''workouts'', JArr [?w])]"
  let ?lg' = "JObj [(''workouts'', JArr [JObj [(''date'', JStr ''2025-11-01''), (''exercises'', JArr []),
       (''notes'', JStr ''tired; felt great'')]])]"
  have h1: "map_of ?lg ''workouts'' = Some (JArr [?w])" by simp
  have h2: "find_existing [?w] ''2025-11-01'' = Inr (Some 0)" by simp
  have h3: "''2025-11-01'' \<noteq> []" by simp
  have h4: "merge_into py_str_example (JObj ?wd) (JObj ?lg) ''2025-11-01'' = Inr ?lg'"
    by (simp add: merge_into_match [OF h1 h2 h3] merge_existing_def merge_exercises_JObj
        merge_workout_type_JObj merge_notes_JObj py_iter_def fmt_def)
  have u: "AList.update ''workouts'' v ?lg = [(''workouts'', v)]" for v by simp
  from notes_reconciled [OF h1 h2 h3 h4] obtain ws'
    where a: "?lg' = JObj (AList.update ''workouts'' (JArr ws') ?lg)"
      and b: "\<forall>n e. map_of ?wd ''notes'' = Some (JStr n) \<and> n \<noteq> [] \<and>
          dict_get ([?w] ! 0) ''notes'' = Some (JStr e) \<and> e \<noteq> [] \<longrightarrow>
          dict_get (ws' ! 0) ''notes'' = Some (JStr (e @ ''; '' @ n))"
    by (elim exE conjE)
  from b have "dict_get (ws' ! 0) ''notes'' = Some (JStr ''tired; felt great'')" by simp
  with a [unfolded u] h4 show ?thesis by blast
qed

section \<open>A matched workout without a type\<close>

text \<open>
  Claim C10. In a merge that finds a matching workout and returns: if the matched workout
  has no workout type (the key is absent, or holds null or the empty string) and the
  incoming record has a non-empty string as its type, the matched workout's type becomes
  \<open>mixed\<close>: the absent type counts as a different type.
\<close>

theorem absent_type_becomes_mixed:
  assumes lg: "map_of lg ''workouts'' = Some (JArr ws)"
    and found: "find_existing ws today = Inr (Some i)" and today: "today \<noteq> []"
    and ok: "merge_into py_str (JObj wd) (JObj lg) today = Inr lg'"
    and incoming: "map_of wd ''workout_type'' = Some (JStr t)" "t \<noteq> []"
    and absent: "dict_get (ws ! i) ''workout_type'' = None \<or>
       dict_get (ws ! i) ''workout_type'' = Some JNull \<or>
       dict_get (ws ! i) ''workout_type'' = Some (JStr [])"
  shows "\<exists>ws'. lg' = JObj (AList.update ''workouts'' (JArr ws') lg) \<and> length ws' = length ws \<and>
     dict_get (ws' ! i) ''workout_type'' = Some (JStr ''mixed'')"
proof -
  from merge_into_match_fields [OF lg found today ok] obtain ex kvs
    where ex: "ws ! i = JObj ex" and i: "i < length ws"
      and m: "merge_existing py_str (JObj wd) (JObj ex) = Inr (JObj kvs)"
      and lg': "lg' = JObj (AList.update ''workouts'' (JArr (ws[i := JObj kvs])) lg)"
    by blast
  note t = merge_existing_workout_type [OF m]
  from absent have old: "map_of ex ''workout_type'' = None \<or>
       map_of ex ''workout_type'' = Some JNull \<or> map_of ex ''workout_type'' = Some (JStr [])"
    by (simp add: ex)
  have differs: "\<not> py_eq (JStr t) (case map_of ex ''workout_type'' of None \<Rightarrow> JNull | Some v \<Rightarrow> v)"
    using old incoming(2) by (elim disjE) simp_all
  from incoming differs have "map_of kvs ''workout_type'' = Some (JStr ''mixed'')"
    unfolding t by simp
  then have new: "dict_get (ws[i := JObj kvs] ! i) ''workout_type'' = Some (JStr ''mixed'')"
    using i by simp
  have c0: "length (ws[i := JObj kvs]) = length ws" by simp
  from lg' c0 new show ?thesis by blast
qed

text \<open>Merging \<open>cardio\<close> into a workout that has no type yields \<open>mixed\<close>.\<close>

theorem absent_type_becomes_mixed_witness:
  "merge_into py_str_example
     (JObj [(''exercises'', JArr []), (''workout_type'', JStr ''cardio'')])
     (JObj [(''workouts'', JArr [JObj [(''date'', JStr ''2025-11-01''), (''exercises'', JArr [])]])])
     ''2025-11-01'' =
     Inr (JObj [(''workouts'', JArr [JObj [(''date'', JStr ''2025-11-01''), (''exercises'', JArr []),
       (''workout_type'', JStr ''mixed'')]])]) \<and>
   (\<exists>ws'. JObj [(''workouts'', JArr [JObj [(''date'', JStr ''2025-11-01''), (''exercises'', JArr []),
       (''workout_type'', JStr ''mixed'')]])] = JObj [(''workouts'', JArr ws')] \<and>
       dict_get (ws' ! 0) ''workout_type'' = Some (JStr ''mixed''))"
proof -
  let ?w = "JObj [(''date'', JStr ''2025-11-01''), (''exercises'', JArr [])]"
  let ?wd = "[(''exercises'', JArr []), (''workout_type'', JStr ''cardio'')]"
  let ?lg = "[(''workouts'', JArr [?w])]"
  let ?lg' = "JObj [(''workouts'', JArr [JObj [(''date'', JStr ''2025-11-01''), (''exercises'', JArr []),
       (''workout_type'', JStr ''mixed'')]])]"
  have h1: "map_of ?lg ''workouts'' = Some (JArr [?w])" by simp
  have h2: "find_existing [?w] ''2025-11-01'' = Inr (Some 0)" by simp
  have h3: "''2025-11-01'' \<noteq> []" by simp
  have h4: "merge_into py_str_example (JObj ?wd) (JObj ?lg) ''2025-11-01'' = Inr ?lg'"
    by (simp add: merge_into_match [OF h1 h2 h3] merge_existing_def merge_exercises_JObj
        merge_workout_type_JObj merge_notes_JObj py_iter_def)
  have h5: "map_of ?wd ''workout_type'' = Some (JStr ''cardio'')" by simp
  have h6: "''cardio'' \<noteq> []" by simp
  have h7: "dict_get ([?w] ! 0) ''workout_type'' = None \<or>
       dict_get ([?w] ! 0) ''workout_type'' = Some JNull \<or>
       dict_get ([?w] ! 0) ''workout_type'' = Some (JStr [])" by simp
  have u: "AList.update ''workouts'' v ?lg = [(''workouts'', v)]" for v by simp
  from absent_type_becomes_mixed [OF h1 h2 h3 h4 h5 h6 h7] obtain ws'
    where a: "?lg' = JObj (AList.update ''workouts'' (JArr ws') ?lg)"
      and b: "dict_get (ws' ! 0) ''workout_type'' = Some (JStr ''mixed'')"
    by (elim exE conjE)
  with a [unfolded u] h4 show ?thesis by blast
qed

section \<open>What a merge leaves alone\<close>

text \<open>
  Claim C8. A merge that returns keeps every workout of the log: none is removed. When
  the scan stops at a matching workout, the log has as many workouts as before, every
  other workout is unchanged, and every field of the matched workout other than
  \<open>exercises\<close>, \<open>workout_type\<close> and \<open>notes\<close> keeps its value, in particular its
  duration and its stored date. When no workout matches, the old workouts are the first
  workouts of the new log, in the same order.
\<close>

theorem merge_frame:
  assumes lg: "map_of lg ''workouts'' = Some (JArr ws)" and today: "today \<noteq> []"
    and ok: "merge_into py_str (JObj wd) (JObj lg) today = Inr lg'"
  shows "\<exists>ws'. lg' = JObj (AList.update ''workouts'' (JArr ws') lg) \<and>
     length ws \<le> length ws' \<and>
     (\<forall>i. find_existing ws today = Inr (Some i) \<longrightarrow>
        length ws' = length ws \<and>
        (\<forall>j < length ws. j \<noteq> i \<longrightarrow> ws' ! j = ws ! j) \<and>
        (\<forall>k. k \<noteq> ''exercises'' \<and> k \<noteq> ''workout_type'' \<and> k \<noteq> ''notes'' \<longrightarrow>
           dict_get (ws' ! i) k = dict_get (ws ! i) k) \<and>
        dict_get (ws' ! i) ''duration'' = dict_get (ws ! i) ''duration'' \<and>
        dict_get (ws' ! i) ''date'' = dict_get (ws ! i) ''date'') \<and>
     (find_existing ws today = Inr None \<longrightarrow> take (length ws) ws' = ws)"
proof -
  from merge_into_cases [OF lg today ok]
  consider (new) "find_existing ws today = Inr None"
      "lg' = JObj (AList.update ''workouts''
                  (JArr (ws @ [JObj (AList.update ''date'' (JStr today) wd)])) lg)"
    | (old) i m where "find_existing ws today = Inr (Some i)"
      "merge_existing py_str (JObj wd) (ws ! i) = Inr m"
      "lg' = JObj (AList.update ''workouts'' (JArr (ws[i := m])) lg)"
    by (elim disjE exE conjE)
  then show ?thesis
  proof cases
    case new
    let ?ws' = "ws @ [JObj (AList.update ''date'' (JStr today) wd)]"
    have "length ws \<le> length ?ws'" "take (length ws) ?ws' = ws" by simp_all
    with new show ?thesis by (intro exI [of _ ?ws']) simp
  next
    case old
    from find_existing_Some [OF old(1)] obtain ex where i: "i < length ws" and ex: "ws ! i = JObj ex"
      by (elim exE conjE)
    from merge_existing_fields [OF old(2) [unfolded ex]] obtain kvs where m: "m = JObj kvs"
      by (elim exE conjE)
    note me = old(2) [unfolded ex m]
    let ?ws' = "ws[i := JObj kvs]"
    have o: "dict_get (?ws' ! i) k = dict_get (ws ! i) k"
      if "k \<noteq> ''exercises''" "k \<noteq> ''workout_type''" "k \<noteq> ''notes''" for k
      using i merge_existing_other [OF me that] by (simp add: ex)
    have 1: "\<forall>j < length ws. j \<noteq> i \<longrightarrow> ?ws' ! j = ws ! j" by simp
    have 2: "\<forall>k. k \<noteq> ''exercises'' \<and> k \<noteq> ''workout_type'' \<and> k \<noteq> ''notes'' \<longrightarrow>
           dict_get (?ws' ! i) k = dict_get (ws ! i) k"
      using o by (intro allI impI) (elim conjE)
    have 3: "dict_get (?ws' ! i) ''duration'' = dict_get (ws ! i) ''duration''"
      by (rule o) simp_all
    have 4: "dict_get (?ws' ! i) ''date'' = dict_get (ws ! i) ''date''"
      by (rule o) simp_all
    have 5: "length ?ws' = length ws" by simp
    have "lg' = JObj (AList.update ''workouts'' (JArr ?ws') lg) \<and>
     length ws \<le> length ?ws' \<and>
     (\<forall>i'. find_existing ws today = Inr (Some i') \<longrightarrow>
        length ?ws' = length ws \<and>
        (\<forall>j < length ws. j \<noteq> i' \<longrightarrow> ?ws' ! j = ws ! j) \<and>
        (\<forall>k. k \<noteq> ''exercises'' \<and> k \<noteq> ''workout_type'' \<and> k \<noteq> ''notes'' \<longrightarrow>
           dict_get (?ws' ! i') k = dict_get (ws ! i') k) \<and>
        dict_get (?ws' ! i') ''duration'' = dict_get (ws ! i') ''duration'' \<and>
        dict_get (?ws' ! i') ''date'' = dict_get (ws ! i') ''date'') \<and>
     (find_existing ws today = Inr None \<longrightarrow> take (length ws) ?ws' = ws)"
      unfolding old(1) using old(3) [unfolded m] 1 2 3 4 5 by (simp only: sum.inject option.inject simp_thms option.distinct le_refl)
    then show ?thesis by (rule exI)
  qed
qed

text \<open>The duration of the matched workout is kept; the incoming duration is dropped.\<close>

theorem merge_frame_witness:
  "merge_into py_str_example
     (JObj [(''exercises'', JArr [JObj [(''name'', JStr ''squat'')]]), (''duration'', JStr ''20 min'')])
     (JObj [(''workouts'', JArr
        [JObj [(''date'', JStr ''2025-10-31''), (''exercises'', JArr [])],
         JObj [(''date'', JStr ''2025-11-01''), (''exercises'', JArr []),
               (''duration'', JStr ''45 min'')]])]) ''2025-11-01'' =
     Inr (JObj [(''workouts'', JArr
        [JObj [(''date'', JStr ''2025-10-31''), (''exercises'', JArr [])],
         JObj [(''date'', JStr ''2025-11-01''),
               (''exercises'', JArr [JObj [(''name'', JStr ''squat'')]]),
               (''duration'', JStr ''45 min'')]])]) \<and>
   (\<exists>ws'. length ws' = 2 \<and>
      ws' ! 0 = JObj [(''date'', JStr ''2025-10-31''), (''exercises'', JArr [])] \<and>
      dict_get (ws' ! 1) ''duration'' = Some (JStr ''45 min'') \<and>
      dict_get (ws' ! 1) ''date'' = Some (JStr ''2025-11-01''))"
proof -
  let ?w0 = "JObj [(''date'', JStr ''2025-10-31''), (''exercises'', JArr [])]"
  let ?w1 = "JObj [(''date'', JStr ''2025-11-01''), (''exercises'', JArr []),
               (''duration'', JStr ''45 min'')]"
  let ?wd = "[(''exercises'', JArr [JObj [(''name'', JStr ''squat'')]]), (''duration'', JStr ''20 min'')]"
  let ?lg = "[(''workouts'', JArr [?w0, ?w1])]"
  let ?lg' = "JObj [(''workouts'', JArr [?w0,
         JObj [(''date'', JStr ''2025-11-01''),
               (''exercises'', JArr [JObj [(''name'', JStr ''squat'')]]),
               (''duration'', JStr ''45 min'')]])]"
  have h1: "map_of ?lg ''workouts'' = Some (JArr [?w0, ?w1])" by simp
  have h2: "find_existing [?w0, ?w1] ''2025-11-01'' = Inr (Some 1)" by simp
  have h3: "''2025-11-01'' \<noteq> []" by simp
  have h4: "merge_into py_str_example (JObj ?wd) (JObj ?lg) ''2025-11-01'' = Inr ?lg'"
    by (simp add: merge_into_match [OF h1 h2 h3] merge_existing_def merge_exercises_JObj
        merge_workout_type_JObj merge_notes_JObj py_iter_def)
  from merge_frame [OF h1 h3 h4] obtain ws'
    where b: "\<forall>i. find_existing [?w0, ?w1] ''2025-11-01'' = Inr (Some i) \<longrightarrow>
        length ws' = length [?w0, ?w1] \<and>
        (\<forall>j < length [?w0, ?w1]. j \<noteq> i \<longrightarrow> ws' ! j = [?w0, ?w1] ! j) \<and>
        (\<forall>k. k \<noteq> ''exercises'' \<and> k \<noteq> ''workout_type'' \<and> k \<noteq> ''notes'' \<longrightarrow>
           dict_get (ws' ! i) k = dict_get ([?w0, ?w1] ! i) k) \<and>
        dict_get (ws' ! i) ''duration'' = dict_get ([?w0, ?w1] ! i) ''duration'' \<and>
        dict_get (ws' ! i) ''date'' = dict_get ([?w0, ?w1] ! i) ''date''"
    by (elim exE conjE)
  note c = b [rule_format, OF h2]
  note c1 = c [THEN conjunct1]
  note c2 = c [THEN conjunct2, THEN conjunct1]
  note c3 = c [THEN conjunct2, THEN conjunct2, THEN conjunct2, THEN conjunct1]
  note c4 = c [THEN conjunct2, THEN conjunct2, THEN conjunct2, THEN conjunct2]
  from c1 have 1: "length ws' = 2" by simp
  from c2 have 2: "ws' ! 0 = ?w0" by simp
  from c3 have 3: "dict_get (ws' ! 1) ''duration'' = Some (JStr ''45 min'')" by simp
  from c4 have 4: "dict_get (ws' ! 1) ''date'' = Some (JStr ''2025-11-01'')" by simp
  from 1 2 3 4 have "\<exists>ws'. length ws' = 2 \<and> ws' ! 0 = ?w0 \<and>
      dict_get (ws' ! 1) ''duration'' = Some (JStr ''45 min'') \<and>
      dict_get (ws' ! 1) ''date'' = Some (JStr ''2025-11-01'')"
    by (intro exI [of _ ws'] conjI)
  with h4 show ?thesis by (intro conjI)
qed

section \<open>Selection of the workout to merge into\<close>

text \<open>
  Claim C3. On a log whose workouts have a string (or no) date, the scan returns the
  first position, in insertion order, whose stored date starts with the target date, or
  nothing when no stored date has the target as a prefix; the merge then changes the
  workout at that position, or appends a new workout.
\<close>

theorem first_prefix_match:
  assumes scan: "list_all scannable ws" and lg: "map_of lg ''workouts'' = Some (JArr ws)"
    and today: "today \<noteq> []"
  shows "\<exists>r. find_existing ws today = Inr r \<and>
     (case r of
        None \<Rightarrow>
          (\<forall>w \<in> set ws. \<not> prefix today (stored_date w)) \<and>
          merge_into py_str (JObj wd) (JObj lg) today =
            Inr (JObj (AList.update ''workouts''
              (JArr (ws @ [JObj (AList.update ''date'' (JStr today) wd)])) lg))
      | Some i \<Rightarrow>
          i < length ws \<and> prefix today (stored_date (ws ! i)) \<and>
          (\<forall>j < i. \<not> prefix today (stored_date (ws ! j))) \<and>
          merge_into py_str (JObj wd) (JObj lg) today =
            ebind (merge_existing py_str (JObj wd) (ws ! i))
              (\<lambda>m. Inr (JObj (AList.update ''workouts'' (JArr (ws[i := m])) lg))))"
proof -
  from find_existing_scan [OF scan, of today] obtain r where r: "find_existing ws today = Inr r"
    and p: "case r of
        None \<Rightarrow> \<forall>w \<in> set ws. \<not> prefix today (stored_date w)
      | Some i \<Rightarrow> i < length ws \<and> prefix today (stored_date (ws ! i)) \<and>
          (\<forall>j < i. \<not> prefix today (stored_date (ws ! j)))"
    by (elim exE conjE)
  show ?thesis
  proof (cases r)
    case None
    with r have n: "find_existing ws today = Inr None" by simp
    from p None have "\<forall>w \<in> set ws. \<not> prefix today (stored_date w)" by simp
    with merge_into_no_match [OF lg n, of py_str wd] n show ?thesis
      by (intro exI [of _ None]) simp
  next
    case (Some i)
    with r have s: "find_existing ws today = Inr (Some i)" by simp
    from p Some have "i < length ws \<and> prefix today (stored_date (ws ! i)) \<and>
          (\<forall>j < i. \<not> prefix today (stored_date (ws ! j)))" by simp
    with merge_into_match [OF lg s today, of py_str "JObj wd"] s show ?thesis
      by (intro exI [of _ "Some i"]) simp
  qed
qed

text \<open>
  The stored date \<open>2025-11-01T00:00:00\<close> matches the target \<open>2025-11-01\<close>;
  the stored date \<open>2025-11-02\<close> does not.
\<close>

theorem first_prefix_match_witness:
  "find_existing
     [JObj [(''date'', JStr ''2025-11-02''), (''exercises'', JArr [])],
      JObj [(''date'', JStr ''2025-11-01T00:00:00''), (''exercises'', JArr [])],
      JObj [(''date'', JStr ''2025-11-01''), (''exercises'', JArr [])]] ''2025-11-01'' =
     Inr (Some 1) \<and>
   find_existing [JObj [(''date'', JStr ''2025-11-02''), (''exercises'', JArr [])]] ''2025-11-01'' =
     Inr None \<and>
   prefix ''2025-11-01'' (stored_date (JObj [(''date'', JStr ''2025-11-01T00:00:00''), (''exercises'', JArr [])])) \<and>
   \<not> prefix ''2025-11-01'' (stored_date (JObj [(''date'', JStr ''2025-11-02''), (''exercises'', JArr [])]))"
proof -
  let ?a = "JObj [(''date'', JStr ''2025-11-02''), (''exercises'', JArr [])]"
  let ?b = "JObj [(''date'', JStr ''2025-11-01T00:00:00''), (''exercises'', JArr [])]"
  let ?c = "JObj [(''date'', JStr ''2025-11-01''), (''exercises'', JArr [])]"
  have h1: "list_all scannable [?a, ?b, ?c]" by (simp add: scannable_def)
  have h2: "map_of [(''workouts'', JArr [?a, ?b, ?c])] ''workouts'' = Some (JArr [?a, ?b, ?c])"
    by simp
  have h3: "''2025-11-01'' \<noteq> []" by simp
  have e1: "find_existing [?a, ?b, ?c] ''2025-11-01'' = Inr (Some 1)" by simp
  from first_prefix_match [OF h1 h2 h3, of py_str_example "[]"] obtain r
    where r: "find_existing [?a, ?b, ?c] ''2025-11-01'' = Inr r"
      and p: "case r of
        None \<Rightarrow>
          (\<forall>w \<in> set [?a, ?b, ?c]. \<not> prefix ''2025-11-01'' (stored_date w)) \<and>
          merge_into py_str_example (JObj []) (JObj [(''workouts'', JArr [?a, ?b, ?c])]) ''2025-11-01'' =
            Inr (JObj (AList.update ''workouts''
              (JArr ([?a, ?b, ?c] @ [JObj (AList.update ''date'' (JStr ''2025-11-01'') [])]))
              [(''workouts'', JArr [?a, ?b, ?c])]))
      | Some i \<Rightarrow>
          i < length [?a, ?b, ?c] \<and> prefix ''2025-11-01'' (stored_date ([?a, ?b, ?c] ! i)) \<and>
          (\<forall>j < i. \<not> prefix ''2025-11-01'' (stored_date ([?a, ?b, ?c] ! j))) \<and>
          merge_into py_str_example (JObj []) (JObj [(''workouts'', JArr [?a, ?b, ?c])]) ''2025-11-01'' =
            ebind (merge_existing py_str_example (JObj []) ([?a, ?b, ?c] ! i))
              (\<lambda>m. Inr (JObj (AList.update ''workouts'' (JArr ([?a, ?b, ?c][i := m]))
                 [(''workouts'', JArr [?a, ?b, ?c])])))"
    by (elim exE conjE)
  from r e1 have "r = Some 1" by simp
  with p have m: "prefix ''2025-11-01'' (stored_date ([?a, ?b, ?c] ! 1))"
    and n: "\<forall>j < 1. \<not> prefix ''2025-11-01'' (stored_date ([?a, ?b, ?c] ! j))"
    by simp_all
  from m have m': "prefix ''2025-11-01'' (stored_date ?b)" by simp
  from n have n': "\<not> prefix ''2025-11-01'' (stored_date ?a)" by simp
  have e2: "find_existing [?a] ''2025-11-01'' = Inr None" by simp
  from e1 e2 m' n' show ?thesis by (intro conjI)
qed

section \<open>Merging into an empty log\<close>

lemma append_to_master_log_empty_log:
  "append_to_master_log py_str (JObj wd) (File (JObj [(''workouts'', JArr [])])) date_override now =
     (Inr (), File (JObj [(''workouts'',
        JArr [JObj (AList.update ''date'' (JStr (today_of date_override now)) wd)])]))"
  by (simp add: append_to_master_log_def load_def merge_into_def py_iter_def
      create_workout_def list_append_def Let_def)

lemma today_of_override: "d \<noteq> [] \<Longrightarrow> today_of (Some d) now = d"
  by (simp add: today_of_def)

text \<open>
  Claim C7. Merging an incoming record into an empty log (no file, or a file with no
  workouts) succeeds and leaves a log with exactly one workout: the incoming record with
  its date set to the date of the merge, every other key as in the incoming record. The
  date of the merge is the date override when one is given (and not empty).
\<close>

theorem merge_into_empty_log:
  "append_to_master_log py_str (JObj wd) NoFile date_override now =
     (Inr (), File (JObj [(''workouts'',
        JArr [JObj (AList.update ''date'' (JStr (today_of date_override now)) wd)])])) \<and>
   append_to_master_log py_str (JObj wd) (File (JObj [(''workouts'', JArr [])])) date_override now =
     (Inr (), File (JObj [(''workouts'',
        JArr [JObj (AList.update ''date'' (JStr (today_of date_override now)) wd)])])) \<and>
   dict_get (JObj (AList.update ''date'' (JStr (today_of date_override now)) wd)) ''date'' =
     Some (JStr (today_of date_override now)) \<and>
   (\<forall>k. k \<noteq> ''date'' \<longrightarrow>
      dict_get (JObj (AList.update ''date'' (JStr (today_of date_override now)) wd)) k =
      dict_get (JObj wd) k) \<and>
   (\<forall>d. date_override = Some d \<and> d \<noteq> [] \<longrightarrow> today_of date_override now = d)"
proof -
  have 3: "dict_get (JObj (AList.update ''date'' (JStr (today_of date_override now)) wd)) ''date'' =
     Some (JStr (today_of date_override now))"
    by (simp add: update_conv')
  have 4: "\<forall>k. k \<noteq> ''date'' \<longrightarrow>
      dict_get (JObj (AList.update ''date'' (JStr (today_of date_override now)) wd)) k =
      dict_get (JObj wd) k"
    by (simp add: update_conv')
  have 5: "\<forall>d. date_override = Some d \<and> d \<noteq> [] \<longrightarrow> today_of date_override now = d"
    by (simp add: today_of_def)
  from append_to_master_log_NoFile [of py_str wd date_override now]
    append_to_master_log_empty_log [of py_str wd date_override now] 3 4 5
  show ?thesis by (intro conjI)
qed

text \<open>The incoming record's own date is overwritten by the target date.\<close>

theorem merge_into_empty_log_witness:
  "append_to_master_log py_str_example
     (JObj [(''exercises'', JArr [JObj [(''name'', JStr ''squat'')]]), (''date'', JStr ''yesterday''),
            (''notes'', JStr ''felt great'')])
     NoFile (Some ''2025-11-01'') ''2025-11-02'' =
     (Inr (), File (JObj [(''workouts'',
        JArr [JObj [(''exercises'', JArr [JObj [(''name'', JStr ''squat'')]]),
                    (''date'', JStr ''2025-11-01''), (''notes'', JStr ''felt great'')]])]))"
proof -
  let ?wd = "[(''exercises'', JArr [JObj [(''name'', JStr ''squat'')]]), (''date'', JStr ''yesterday''),
            (''notes'', JStr ''felt great'')]"
  note t = merge_into_empty_log [of py_str_example ?wd "Some ''2025-11-01''" "''2025-11-02''"]
  have d: "today_of (Some ''2025-11-01'') ''2025-11-02'' = ''2025-11-01''"
    using t [THEN conjunct2, THEN conjunct2, THEN conjunct2, THEN conjunct2] by simp
  from t [THEN conjunct1] show ?thesis unfolding d by simp
qed

section \<open>Loading the log\<close>

text \<open>A stored value that has no list of workouts under the key \<open>workouts\<close>.\<close>

lemma merge_into_bad_structure:
  assumes "\<forall>kvs ws. j = JObj kvs \<longrightarrow> map_of kvs ''workouts'' \<noteq> Some (JArr ws)"
  shows "\<exists>e. merge_into py_str (JObj wd) j today = Inl e"
proof (cases j)
  case (JObj kvs)
  show ?thesis
  proof (cases "map_of kvs ''workouts''")
    case None
    with JObj show ?thesis by (simp add: merge_into_def)
  next
    case (Some v)
    show ?thesis
    proof (cases v)
      case (JArr ws)
      with assms JObj Some show ?thesis by simp
    next
      case (JObj kv2)
      show ?thesis
      proof (cases kv2)
        case Nil
        with \<open>j = JObj kvs\<close> Some JObj show ?thesis
          by (simp add: merge_into_def py_iter_def create_workout_def list_append_def)
      next
        case (Cons a list)
        with \<open>j = JObj kvs\<close> Some JObj show ?thesis
          by (simp add: merge_into_def py_iter_def get_method_def)
      qed
    next
      case (JStr s)
      show ?thesis
      proof (cases s)
        case Nil
        with \<open>j = JObj kvs\<close> Some JStr show ?thesis
          by (simp add: merge_into_def py_iter_def create_workout_def list_append_def)
      next
        case (Cons a list)
        with \<open>j = JObj kvs\<close> Some JStr show ?thesis
          by (simp add: merge_into_def py_iter_def get_method_def)
      qed
    qed (use \<open>j = JObj kvs\<close> Some in \<open>simp_all add: merge_into_def py_iter_def\<close>)
  qed
qed (simp_all add: merge_into_def getitem_def)

lemma append_to_master_log_not_dict:
  "(\<forall>kvs. wd \<noteq> JObj kvs) \<Longrightarrow> append_to_master_log py_str wd st date_override now = (Inl TypeError, st)"
  by (cases wd) (simp_all add: append_to_master_log_def setitem_def Let_def)

lemma append_to_master_log_Unparseable:
  "append_to_master_log py_str wd Unparseable date_override now =
     (Inl (case wd of JObj kvs \<Rightarrow> JSONDecodeError | _ \<Rightarrow> TypeError), Unparseable)"
  by (cases wd) (simp_all add: append_to_master_log_def setitem_def load_def Let_def)

lemma append_to_master_log_bad_structure:
  assumes "\<forall>kvs ws. j = JObj kvs \<longrightarrow> map_of kvs ''workouts'' \<noteq> Some (JArr ws)"
  shows "\<exists>e. append_to_master_log py_str wd (File j) date_override now = (Inl e, File j)"
proof (cases "\<exists>kvs. wd = JObj kvs")
  case True
  then obtain kvs where wd: "wd = JObj kvs" by (elim exE)
  from merge_into_bad_structure [OF assms, where py_str = py_str
      and wd = "AList.update ''date'' (JStr (today_of date_override now)) kvs"
      and today = "today_of date_override now"] obtain e
    where "merge_into py_str (JObj (AList.update ''date'' (JStr (today_of date_override now)) kvs))
             j (today_of date_override now) = Inl e"
    by (elim exE)
  then show ?thesis unfolding wd append_to_master_log_File by simp
next
  case False
  then have "\<forall>kvs. wd \<noteq> JObj kvs" by simp
  from append_to_master_log_not_dict [OF this] show ?thesis by (intro exI)
qed

text \<open>
  Claim C6, as stated, fails for data that is valid JSON but not a log of workouts: the
  load does not check the structure. A log whose workouts are malformed (one with a
  null list of exercises, one empty dictionary) is loaded as it is, merged into and
  written back, and the call returns normally.
\<close>

theorem malformed_records_are_merged:
  "\<not> wf_log (JObj [(''workouts'', JArr
       [JObj [(''date'', JStr ''garbage''), (''exercises'', JNull)], JObj []])]) \<and>
   load (File (JObj [(''workouts'', JArr
       [JObj [(''date'', JStr ''garbage''), (''exercises'', JNull)], JObj []])])) =
     Inr (JObj [(''workouts'', JArr
       [JObj [(''date'', JStr ''garbage''), (''exercises'', JNull)], JObj []])]) \<and>
   append_to_master_log py_str_example (JObj [(''exercises'', JArr [])])
     (File (JObj [(''workouts'', JArr
       [JObj [(''date'', JStr ''garbage''), (''exercises'', JNull)], JObj []])]))
     (Some ''2025-11-01'') ''2025-11-02'' =
     (Inr (), File (JObj [(''workouts'', JArr
       [JObj [(''date'', JStr ''garbage''), (''exercises'', JNull)], JObj [],
        JObj [(''exercises'', JArr []), (''date'', JStr ''2025-11-01'')]])]))"
proof -
  let ?ws = "[JObj [(''date'', JStr ''garbage''), (''exercises'', JNull)], JObj []]"
  have 1: "\<not> wf_log (JObj [(''workouts'', JArr ?ws)])"
    by (simp add: wf_log_def wf_workout_def)
  have 2: "load (File (JObj [(''workouts'', JArr ?ws)])) = Inr (JObj [(''workouts'', JArr ?ws)])"
    by (simp add: load_def)
  have lg: "map_of [(''workouts'', JArr ?ws)] ''workouts'' = Some (JArr ?ws)" by simp
  have f: "find_existing ?ws ''2025-11-01'' = Inr None" by simp
  have 3: "append_to_master_log py_str_example (JObj [(''exercises'', JArr [])])
     (File (JObj [(''workouts'', JArr ?ws)])) (Some ''2025-11-01'') ''2025-11-02'' =
     (Inr (), File (JObj [(''workouts'', JArr
       (?ws @ [JObj [(''exercises'', JArr []), (''date'', JStr ''2025-11-01'')]]))]))"
    by (simp add: append_to_master_log_File today_of_def merge_into_no_match [OF lg f])
  from 1 2 3 show ?thesis by simp
qed

text \<open>
  Claim C6, amended. Loading a missing log gives the empty log \<open>{"workouts": []}\<close> and
  the run goes on to succeed. When the file is not JSON, the load raises: whatever would
  follow the load is not run, the call ends with that exception (or with the \<open>TypeError\<close>
  of line 124, raised before the load, when the incoming data is not a dictionary) and
  the store is untouched. When the file is JSON, the load returns its value whatever its
  structure; if that value has no list under the key \<open>workouts\<close>, the scan or the
  append raises and the store is untouched.
\<close>

theorem load_missing_or_unparseable:
  "load NoFile = Inr (JObj [(''workouts'', JArr [])]) \<and>
   fst (append_to_master_log py_str (JObj kvs) NoFile date_override now) = Inr () \<and>
   load Unparseable = Inl JSONDecodeError \<and>
   (\<forall>f. ebind (load Unparseable) f = (Inl JSONDecodeError :: json result)) \<and>
   append_to_master_log py_str wd Unparseable date_override now =
     (Inl (case wd of JObj kvs \<Rightarrow> JSONDecodeError | _ \<Rightarrow> TypeError), Unparseable) \<and>
   load (File j) = Inr j \<and>
   ((\<forall>kvs ws. j = JObj kvs \<longrightarrow> map_of kvs ''workouts'' \<noteq> Some (JArr ws)) \<longrightarrow>
      (\<exists>e. append_to_master_log py_str wd (File j) date_override now = (Inl e, File j)))"
proof -
  have 1: "load NoFile = Inr (JObj [(''workouts'', JArr [])])" by (simp add: load_def)
  have 2: "fst (append_to_master_log py_str (JObj kvs) NoFile date_override now) = Inr ()"
    by (simp add: append_to_master_log_NoFile)
  have 3: "load Unparseable = Inl JSONDecodeError" by (simp add: load_def)
  have 4: "\<forall>f. ebind (load Unparseable) f = (Inl JSONDecodeError :: json result)"
    by (simp add: load_def)
  note 5 = append_to_master_log_Unparseable [of py_str wd date_override now]
  have 6: "load (File j) = Inr j" by (simp add: load_def)
  have 7: "(\<forall>kvs ws. j = JObj kvs \<longrightarrow> map_of kvs ''workouts'' \<noteq> Some (JArr ws)) \<longrightarrow>
      (\<exists>e. append_to_master_log py_str wd (File j) date_override now = (Inl e, File j))"
    using append_to_master_log_bad_structure by (intro impI)
  from 1 2 3 4 5 6 7 show ?thesis by (intro conjI)
qed

text \<open>A log file without the key \<open>workouts\<close>, and one that is not JSON.\<close>

theorem load_missing_or_unparseable_witness:
  "(\<exists>e. append_to_master_log py_str_example (JObj [(''exercises'', JArr [])])
      (File (JObj [(''workout'', JArr [])])) None ''2025-11-02'' =
      (Inl e, File (JObj [(''workout'', JArr [])]))) \<and>
   append_to_master_log py_str_example (JObj [(''exercises'', JArr [])]) Unparseable None
     ''2025-11-02'' = (Inl JSONDecodeError, Unparseable)"
proof -
  let ?j = "JObj [(''workout'', JArr [])]"
  have h: "\<forall>kvs ws. ?j = JObj kvs \<longrightarrow> map_of kvs ''workouts'' \<noteq> Some (JArr ws)" by simp
  note t = load_missing_or_unparseable [of py_str_example "[]" None "''2025-11-02''"
      "JObj [(''exercises'', JArr [])]" ?j]
  note a = t [THEN conjunct2, THEN conjunct2, THEN conjunct2, THEN conjunct2, THEN conjunct1]
  note b = t [THEN conjunct2, THEN conjunct2, THEN conjunct2, THEN conjunct2, THEN conjunct2,
      THEN conjunct2, THEN mp, OF h]
  from a have a': "append_to_master_log py_str_example (JObj [(''exercises'', JArr [])]) Unparseable
     None ''2025-11-02'' = (Inl JSONDecodeError, Unparseable)" by simp
  from b a' show ?thesis by (intro conjI)
qed

section \<open>Merging into a well-formed log\<close>

lemma wf_workoutD:
  assumes "wf_workout w"
  shows "\<exists>kvs s xs. w = JObj kvs \<and> map_of kvs ''date'' = Some (JStr s) \<and>
     map_of kvs ''exercises'' = Some (JArr xs)"
proof (cases w)
  case (JObj kvs)
  from assms obtain s where s: "map_of kvs ''date'' = Some (JStr s)"
    unfolding JObj wf_workout_def by (simp split: option.splits json.splits)
  from assms obtain xs where xs: "map_of kvs ''exercises'' = Some (JArr xs)"
    unfolding JObj wf_workout_def by (simp split: option.splits json.splits)
  from JObj s xs show ?thesis by (intro exI conjI)
qed (use assms in \<open>simp_all add: wf_workout_def\<close>)

lemma wf_workoutI:
  "map_of kvs ''date'' = Some (JStr s) \<Longrightarrow> map_of kvs ''exercises'' = Some (JArr xs) \<Longrightarrow>
   wf_workout (JObj kvs)"
  by (simp add: wf_workout_def)

lemma wf_workout_scannable: "wf_workout w \<Longrightarrow> scannable w"
  by (drule wf_workoutD) (elim exE conjE, simp add: scannable_def)

lemma wf_workout_truthy: "wf_workout w \<Longrightarrow> truthy w"
proof -
  assume "wf_workout w"
  from wf_workoutD [OF this] obtain kvs s where w: "w = JObj kvs"
    and d: "map_of kvs ''date'' = Some (JStr s)" by (elim exE conjE)
  from d have "kvs \<noteq> []" by (cases kvs) simp_all
  with w show ?thesis by simp
qed

lemma valid_recordD:
  assumes "valid_record wd"
  shows "\<exists>kvs es. wd = JObj kvs \<and> map_of kvs ''exercises'' = Some (JArr es)"
proof (cases wd)
  case (JObj kvs)
  from assms obtain es where "map_of kvs ''exercises'' = Some (JArr es)"
    unfolding JObj valid_record_def by (simp split: option.splits json.splits)
  with JObj show ?thesis by (intro exI conjI)
qed (use assms in \<open>simp_all add: valid_record_def\<close>)

lemma merge_into_match_truthy:
  assumes "map_of lg ''workouts'' = Some (JArr ws)"
    and "find_existing ws today = Inr (Some i)" and "truthy (ws ! i)"
  shows "merge_into py_str wd (JObj lg) today =
     ebind (merge_existing py_str wd (ws ! i))
       (\<lambda>m. Inr (JObj (AList.update ''workouts'' (JArr (ws[i := m])) lg)))"
  using assms by (simp add: merge_into_def py_iter_def)

text \<open>The merge branch never raises on a well-formed workout and a list of exercises.\<close>

lemma merge_existing_wf:
  assumes d: "map_of ex ''date'' = Some (JStr s)"
    and x: "map_of ex ''exercises'' = Some (JArr xs)"
    and e: "map_of wd ''exercises'' = Some (JArr es)"
  shows "\<exists>kvs. merge_existing py_str (JObj wd) (JObj ex) = Inr (JObj kvs) \<and>
     map_of kvs ''date'' = Some (JStr s) \<and> map_of kvs ''exercises'' = Some (JArr (xs @ es))"
proof -
  have 1: "merge_exercises (JObj wd) (JObj ex) =
      Inr (JObj (AList.update ''exercises'' (JArr (xs @ es)) ex))"
    by (simp add: merge_exercises_JObj x e py_iter_def)
  have "\<exists>e2. merge_workout_type (JObj wd)
      (JObj (AList.update ''exercises'' (JArr (xs @ es)) ex)) = Inr (JObj e2)"
    by (intro exI) (rule merge_workout_type_JObj)
  then obtain e2 where 2: "merge_workout_type (JObj wd)
      (JObj (AList.update ''exercises'' (JArr (xs @ es)) ex)) = Inr (JObj e2)" by (elim exE)
  have "\<exists>e3. merge_notes py_str (JObj wd) (JObj e2) = Inr (JObj e3)"
    by (intro exI) (rule merge_notes_JObj)
  then obtain e3 where 3: "merge_notes py_str (JObj wd) (JObj e2) = Inr (JObj e3)" by (elim exE)
  have m: "merge_existing py_str (JObj wd) (JObj ex) = Inr (JObj e3)"
    by (simp add: merge_existing_def 1 2 3)
  from merge_existing_exercises [OF m] obtain xs' v ys
    where a: "map_of ex ''exercises'' = Some (JArr xs')" "map_of wd ''exercises'' = Some v"
      "py_iter v = Inr ys" "map_of e3 ''exercises'' = Some (JArr (xs' @ ys))"
    by (elim exE conjE)
  from a(1) x have "xs' = xs" by simp
  moreover from a(2) e have "v = JArr es" by simp
  with a(3) have "ys = es" by (simp add: py_iter_def)
  ultimately have ex': "map_of e3 ''exercises'' = Some (JArr (xs @ es))" using a(4) by simp
  have "map_of e3 ''date'' = map_of ex ''date''"
    by (rule merge_existing_other [OF m]) simp_all
  with d have "map_of e3 ''date'' = Some (JStr s)" by simp
  with m ex' show ?thesis by (intro exI conjI)
qed

lemma stored_date_JObj:
  "map_of kvs ''date'' = Some (JStr s) \<Longrightarrow> stored_date (JObj kvs) = s"
  by (simp add: stored_date_def)

lemma exercises_of_JObj:
  "map_of kvs ''exercises'' = Some (JArr xs) \<Longrightarrow> exercises_of (JObj kvs) = xs"
  by (simp add: exercises_of_def)

text \<open>
  One merge into a well-formed log: it returns, the log stays well formed, and either no
  stored date starts with the target and a workout dated today is appended, or the first
  matching workout gets the incoming exercises behind its own and keeps its date.
\<close>

lemma merge_into_wf:
  assumes wf: "list_all wf_workout ws" and lg: "map_of lg ''workouts'' = Some (JArr ws)"
    and e: "map_of wd ''exercises'' = Some (JArr es)"
  shows "\<exists>ws'. merge_into py_str (JObj wd) (JObj lg) today =
        Inr (JObj (AList.update ''workouts'' (JArr ws') lg)) \<and>
     list_all wf_workout ws' \<and>
     ((\<forall>w \<in> set ws. \<not> prefix today (stored_date w)) \<and>
        (\<exists>new. ws' = ws @ [new] \<and> stored_date new = today \<and> exercises_of new = es) \<or>
      (\<exists>i m. i < length ws \<and> prefix today (stored_date (ws ! i)) \<and> ws' = ws[i := m] \<and>
        stored_date m = stored_date (ws ! i) \<and>
        exercises_of m = exercises_of (ws ! i) @ es))"
proof -
  from wf have "list_all scannable ws"
    by (simp add: list_all_iff wf_workout_scannable)
  from find_existing_scan [OF this, of today] obtain r where r: "find_existing ws today = Inr r"
    and p: "case r of
        None \<Rightarrow> \<forall>w \<in> set ws. \<not> prefix today (stored_date w)
      | Some i \<Rightarrow> i < length ws \<and> prefix today (stored_date (ws ! i)) \<and>
          (\<forall>j < i. \<not> prefix today (stored_date (ws ! j)))"
    by (elim exE conjE)
  show ?thesis
  proof (cases r)
    case None
    with r have n: "find_existing ws today = Inr None" by simp
    from p None have no: "\<forall>w \<in> set ws. \<not> prefix today (stored_date w)" by simp
    let ?new = "JObj (AList.update ''date'' (JStr today) wd)"
    have nd: "map_of (AList.update ''date'' (JStr today) wd) ''date'' = Some (JStr today)"
      by (simp add: update_conv')
    have ne: "map_of (AList.update ''date'' (JStr today) wd) ''exercises'' = Some (JArr es)"
      by (simp add: update_conv' e)
    have 1: "list_all wf_workout (ws @ [?new])"
      using wf wf_workoutI [OF nd ne] by simp
    have 2: "\<exists>new. ws @ [?new] = ws @ [new] \<and> stored_date new = today \<and> exercises_of new = es"
      using stored_date_JObj [OF nd] exercises_of_JObj [OF ne] by (intro exI [of _ ?new] conjI refl)
    from merge_into_no_match [OF lg n, of py_str wd] 1 no 2 show ?thesis
      by (intro exI [of _ "ws @ [?new]"] conjI disjI1)
  next
    case (Some i)
    with r have s: "find_existing ws today = Inr (Some i)" by simp
    from p Some have i: "i < length ws" and pi: "prefix today (stored_date (ws ! i))" by simp_all
    from wf i have wi: "wf_workout (ws ! i)" by (simp add: list_all_length)
    from wf_workoutD [OF wi] obtain ex sd xs where ex: "ws ! i = JObj ex"
      and d: "map_of ex ''date'' = Some (JStr sd)" and x: "map_of ex ''exercises'' = Some (JArr xs)"
      by (elim exE conjE)
    from merge_existing_wf [OF d x e, of py_str] obtain kvs
      where m: "merge_existing py_str (JObj wd) (JObj ex) = Inr (JObj kvs)"
        and md: "map_of kvs ''date'' = Some (JStr sd)"
        and mx: "map_of kvs ''exercises'' = Some (JArr (xs @ es))"
      by (elim exE conjE)
    have eq: "merge_into py_str (JObj wd) (JObj lg) today =
        Inr (JObj (AList.update ''workouts'' (JArr (ws[i := JObj kvs])) lg))"
      unfolding merge_into_match_truthy [OF lg s wf_workout_truthy [OF wi]] ex m by simp
    have 1: "list_all wf_workout (ws[i := JObj kvs])"
      using wf wf_workoutI [OF md mx] i
      by (auto simp: list_all_length nth_list_update)
    have sdm: "stored_date (JObj kvs) = stored_date (ws ! i)"
      unfolding ex stored_date_JObj [OF md] stored_date_JObj [OF d] ..
    have exm: "exercises_of (JObj kvs) = exercises_of (ws ! i) @ es"
      unfolding ex exercises_of_JObj [OF mx] exercises_of_JObj [OF x] ..
    have 2: "\<exists>i' m. i' < length ws \<and> prefix today (stored_date (ws ! i')) \<and>
        ws[i := JObj kvs] = ws[i' := m] \<and>
        stored_date m = stored_date (ws ! i') \<and>
        exercises_of m = exercises_of (ws ! i') @ es"
      using i pi sdm exm by (intro exI [of _ i] exI [of _ "JObj kvs"] conjI refl)
    from eq 1 2 show ?thesis
      by (intro exI [of _ "ws[i := JObj kvs]"] conjI disjI2)
  qed
qed

lemma wf_storeD:
  assumes "wf_store st"
  shows "\<exists>lg. load st = Inr (JObj lg) \<and> map_of lg ''workouts'' = Some (JArr (stored_workouts st)) \<and>
     list_all wf_workout (stored_workouts st)"
proof (cases st)
  case NoFile
  then show ?thesis
    by (simp add: load_def stored_workouts_def workouts_of_def)
next
  case Unparseable
  with assms show ?thesis by (simp add: wf_store_def)
next
  case (File j)
  with assms have w: "wf_log j" by (simp add: wf_store_def)
  then obtain lg where j: "j = JObj lg" by (cases j) (simp_all add: wf_log_def)
  from w obtain ws where ws: "map_of lg ''workouts'' = Some (JArr ws)" and a: "list_all wf_workout ws"
    unfolding j wf_log_def by (simp split: option.splits json.splits)
  from ws have "stored_workouts st = ws"
    by (simp add: File j stored_workouts_def load_def workouts_of_def)
  with File j ws a show ?thesis by (simp add: load_def)
qed

lemma append_to_master_log_loaded:
  assumes "load st = Inr lg"
  shows "append_to_master_log py_str (JObj wd) st date_override now =
     (case merge_into py_str (JObj (AList.update ''date'' (JStr (today_of date_override now)) wd))
             lg (today_of date_override now) of
        Inl e \<Rightarrow> (Inl e, st)
      | Inr lg' \<Rightarrow> (Inr (), File lg'))"
  using assms by (simp add: append_to_master_log_def Let_def)

text \<open>
  Claim C9. For incoming data that satisfies the validation contract and a well-formed
  store (no file, or a well-formed log), the call returns normally, whatever the date:
  no field access, comparison, concatenation or reconciliation raises. The log written
  is again well formed.
\<close>

theorem valid_merge_never_raises:
  assumes v: "valid_record wd" and st: "wf_store st"
  shows "\<exists>lg'. append_to_master_log py_str wd st date_override now = (Inr (), File lg') \<and>
     wf_log lg'"
proof -
  from valid_recordD [OF v] obtain kvs es where wd: "wd = JObj kvs"
    and e: "map_of kvs ''exercises'' = Some (JArr es)" by (elim exE conjE)
  from wf_storeD [OF st] obtain lg where l: "load st = Inr (JObj lg)"
    and ws: "map_of lg ''workouts'' = Some (JArr (stored_workouts st))"
    and wf: "list_all wf_workout (stored_workouts st)" by (elim exE conjE)
  have run: "\<exists>ws'. append_to_master_log py_str wd st dov now =
       (Inr (), File (JObj (AList.update ''workouts'' (JArr ws') lg))) \<and> list_all wf_workout ws'"
    for dov
  proof -
    have e': "map_of (AList.update ''date'' (JStr (today_of dov now)) kvs) ''exercises'' =
        Some (JArr es)"
      by (simp add: update_conv' e)
    from merge_into_wf [OF wf ws e', of py_str "today_of dov now"] obtain ws'
      where m: "merge_into py_str (JObj (AList.update ''date'' (JStr (today_of dov now)) kvs))
            (JObj lg) (today_of dov now) = Inr (JObj (AList.update ''workouts'' (JArr ws') lg))"
        and w': "list_all wf_workout ws'"
      by (elim exE conjE)
    have "append_to_master_log py_str wd st dov now =
       (Inr (), File (JObj (AList.update ''workouts'' (JArr ws') lg)))"
      unfolding wd append_to_master_log_loaded [OF l] m by simp
    with w' show ?thesis by (intro exI conjI)
  qed
  have wfl: "wf_log (JObj (AList.update ''workouts'' (JArr ws') lg))" if "list_all wf_workout ws'" for ws'
    using that by (simp add: wf_log_def update_conv')
  from run [of date_override] obtain ws' where a: "append_to_master_log py_str wd st date_override now =
       (Inr (), File (JObj (AList.update ''workouts'' (JArr ws') lg)))"
    and w': "list_all wf_workout ws'" by (elim exE conjE)
  from a wfl [OF w'] show ?thesis by (intro exI conjI)
qed

text \<open>A valid record merged into a well-formed log with a workout of that day.\<close>

theorem valid_merge_never_raises_witness:
  "valid_record (JObj [(''exercises'', JArr [JObj [(''name'', JStr ''squat''),
       (''sets'', JArr [JObj [(''set_number'', JInt 1), (''reps'', JInt 5)]])]]),
       (''workout_type'', JStr ''strength'')]) \<and>
   wf_store (File (JObj [(''workouts'', JArr [JObj [(''date'', JStr ''2025-11-01''),
       (''exercises'', JArr [])]])])) \<and>
   (\<exists>lg'. append_to_master_log py_str_example
      (JObj [(''exercises'', JArr [JObj [(''name'', JStr ''squat''),
       (''sets'', JArr [JObj [(''set_number'', JInt 1), (''reps'', JInt 5)]])]]),
       (''workout_type'', JStr ''strength'')])
      (File (JObj [(''workouts'', JArr [JObj [(''date'', JStr ''2025-11-01''),
       (''exercises'', JArr [])]])])) (Some ''2025-11-01'') ''2025-11-02'' = (Inr (), File lg'))"
proof -
  let ?wd = "JObj [(''exercises'', JArr [JObj [(''name'', JStr ''squat''),
       (''sets'', JArr [JObj [(''set_number'', JInt 1), (''reps'', JInt 5)]])]]),
       (''workout_type'', JStr ''strength'')]"
  let ?st = "File (JObj [(''workouts'', JArr [JObj [(''date'', JStr ''2025-11-01''),
       (''exercises'', JArr [])]])])"
  have h1: "valid_record ?wd"
    by (simp add: valid_record_def valid_exercise_def valid_set_entry_def)
  have h2: "wf_store ?st" by (simp add: wf_store_def wf_log_def wf_workout_def)
  from valid_merge_never_raises [OF h1 h2, of py_str_example "Some ''2025-11-01''" "''2025-11-02''"]
  obtain lg' where "append_to_master_log py_str_example ?wd ?st (Some ''2025-11-01'') ''2025-11-02'' =
      (Inr (), File lg')" by (elim exE conjE)
  then have "\<exists>lg'. append_to_master_log py_str_example ?wd ?st (Some ''2025-11-01'') ''2025-11-02'' =
      (Inr (), File lg')" by (rule exI)
  with h1 h2 show ?thesis by (intro conjI)
qed

section \<open>Incoming records that violate the validation contract\<close>

text \<open>
  Claim C2, as stated, fails: the program does not check the incoming record before the
  merge. A record whose only exercise has an empty name violates the contract, yet the
  call on a missing log returns normally and writes the record to the store.
\<close>

theorem invalid_record_is_persisted:
  "\<not> valid_record (JObj [(''exercises'', JArr [JObj [(''name'', JStr '''')]])]) \<and>
   append_to_master_log py_str_example
     (JObj [(''exercises'', JArr [JObj [(''name'', JStr '''')]])]) NoFile
     (Some ''2025-11-01'') ''2025-11-02'' =
     (Inr (), File (JObj [(''workouts'', JArr [JObj [(''exercises'', JArr [JObj [(''name'', JStr '''')]]),
        (''date'', JStr ''2025-11-01'')]])])) \<and>
   File (JObj [(''workouts'', JArr [JObj [(''exercises'', JArr [JObj [(''name'', JStr '''')]]),
        (''date'', JStr ''2025-11-01'')]])]) \<noteq> NoFile"
proof -
  have 1: "\<not> valid_record (JObj [(''exercises'', JArr [JObj [(''name'', JStr '''')]])])"
    by (simp add: valid_record_def valid_exercise_def)
  have 2: "append_to_master_log py_str_example
     (JObj [(''exercises'', JArr [JObj [(''name'', JStr '''')]])]) NoFile
     (Some ''2025-11-01'') ''2025-11-02'' =
     (Inr (), File (JObj [(''workouts'', JArr [JObj [(''exercises'', JArr [JObj [(''name'', JStr '''')]]),
        (''date'', JStr ''2025-11-01'')]])]))"
    by (simp add: append_to_master_log_NoFile today_of_def)
  from 1 2 show ?thesis by simp
qed

lemma py_iter_error: "py_iter v = Inl e \<Longrightarrow> e = TypeError"
  by (cases v) (simp_all add: py_iter_def)

text \<open>The merge branch on a well-formed workout: it raises exactly on a missing or not iterable \<open>exercises\<close>.\<close>

lemma merge_existing_no_exercises:
  assumes "map_of ex ''exercises'' = Some (JArr xs)" and "map_of wd ''exercises'' = None"
  shows "merge_existing py_str (JObj wd) (JObj ex) = Inl KeyError"
  by (simp add: merge_existing_def merge_exercises_JObj assms)

lemma merge_existing_not_iterable:
  assumes "map_of ex ''exercises'' = Some (JArr xs)" and "map_of wd ''exercises'' = Some v"
    and "py_iter v = Inl e"
  shows "merge_existing py_str (JObj wd) (JObj ex) = Inl TypeError"
  using py_iter_error [OF assms(3)]
  by (simp add: merge_existing_def merge_exercises_JObj assms)

lemma merge_existing_iterable:
  assumes x: "map_of ex ''exercises'' = Some (JArr xs)"
    and e: "map_of wd ''exercises'' = Some v" and it: "py_iter v = Inr ys"
  shows "\<exists>kvs. merge_existing py_str (JObj wd) (JObj ex) = Inr (JObj kvs) \<and>
     map_of kvs ''exercises'' = Some (JArr (xs @ ys))"
proof -
  have 1: "merge_exercises (JObj wd) (JObj ex) =
      Inr (JObj (AList.update ''exercises'' (JArr (xs @ ys)) ex))"
    by (simp add: merge_exercises_JObj x e it)
  have "\<exists>e2. merge_workout_type (JObj wd)
      (JObj (AList.update ''exercises'' (JArr (xs @ ys)) ex)) = Inr (JObj e2)"
    by (intro exI) (rule merge_workout_type_JObj)
  then obtain e2 where 2: "merge_workout_type (JObj wd)
      (JObj (AList.update ''exercises'' (JArr (xs @ ys)) ex)) = Inr (JObj e2)" by (elim exE)
  have "\<exists>e3. merge_notes py_str (JObj wd) (JObj e2) = Inr (JObj e3)"
    by (intro exI) (rule merge_notes_JObj)
  then obtain e3 where 3: "merge_notes py_str (JObj wd) (JObj e2) = Inr (JObj e3)" by (elim exE)
  have m: "merge_existing py_str (JObj wd) (JObj ex) = Inr (JObj e3)"
    by (simp add: merge_existing_def 1 2 3)
  from merge_existing_exercises [OF m] obtain xs' v' ys'
    where a: "map_of ex ''exercises'' = Some (JArr xs')" "map_of wd ''exercises'' = Some v'"
      "py_iter v' = Inr ys'" "map_of e3 ''exercises'' = Some (JArr (xs' @ ys'))"
    by (elim exE conjE)
  from a(1) x have "xs' = xs" by simp
  moreover from a(2) e have "v' = v" by simp
  with a(3) it have "ys' = ys" by simp
  ultimately have "map_of e3 ''exercises'' = Some (JArr (xs @ ys))" using a(4) by simp
  with m show ?thesis by (intro exI conjI)
qed

text \<open>
  Every outcome of a call on a well-formed store, whatever the incoming data: \<open>r\<close> is
  the result of the scan for the date of the merge.
\<close>

lemma append_to_master_log_outcome:
  assumes st: "wf_store st"
  shows "\<exists>lg r. load st = Inr (JObj lg) \<and>
     find_existing (stored_workouts st) (today_of date_override now) = Inr r \<and>
     (\<forall>kvs. wd = JObj kvs \<and> r = None \<longrightarrow>
        append_to_master_log py_str wd st date_override now =
          (Inr (), File (JObj (AList.update ''workouts''
             (JArr (stored_workouts st @
                [JObj (AList.update ''date'' (JStr (today_of date_override now)) kvs)])) lg)))) \<and>
     (\<forall>kvs i. wd = JObj kvs \<and> r = Some i \<and> map_of kvs ''exercises'' = None \<longrightarrow>
        append_to_master_log py_str wd st date_override now = (Inl KeyError, st)) \<and>
     (\<forall>kvs i v e. wd = JObj kvs \<and> r = Some i \<and> map_of kvs ''exercises'' = Some v \<and>
          py_iter v = Inl e \<longrightarrow>
        append_to_master_log py_str wd st date_override now = (Inl TypeError, st)) \<and>
     (\<forall>kvs i v ys. wd = JObj kvs \<and> r = Some i \<and> map_of kvs ''exercises'' = Some v \<and>
          py_iter v = Inr ys \<longrightarrow>
        (\<exists>m. append_to_master_log py_str wd st date_override now =
           (Inr (), File (JObj (AList.update ''workouts''
              (JArr ((stored_workouts st)[i := m])) lg))) \<and>
           exercises_of m = exercises_of (stored_workouts st ! i) @ ys))"
proof -
  let ?d = "today_of date_override now"
  let ?ws = "stored_workouts st"
  from wf_storeD [OF st] obtain lg where l: "load st = Inr (JObj lg)"
    and ws: "map_of lg ''workouts'' = Some (JArr ?ws)"
    and wf: "list_all wf_workout ?ws" by (elim exE conjE)
  from wf have "list_all scannable ?ws"
    by (simp add: list_all_iff wf_workout_scannable)
  from find_existing_scan [OF this, of ?d] obtain r where r: "find_existing ?ws ?d = Inr r"
    and p: "case r of
        None \<Rightarrow> \<forall>w \<in> set ?ws. \<not> prefix ?d (stored_date w)
      | Some i \<Rightarrow> i < length ?ws \<and> prefix ?d (stored_date (?ws ! i)) \<and>
          (\<forall>j < i. \<not> prefix ?d (stored_date (?ws ! j)))"
    by (elim exE conjE)
  have date_keeps: "map_of (AList.update ''date'' (JStr ?d) kvs) ''exercises'' = map_of kvs ''exercises''"
    for kvs by (simp add: update_conv')
  have new: "append_to_master_log py_str wd st date_override now =
          (Inr (), File (JObj (AList.update ''workouts''
             (JArr (?ws @ [JObj (AList.update ''date'' (JStr ?d) kvs)])) lg)))"
    if "wd = JObj kvs" "r = None" for kvs
  proof -
    from r that(2) have n: "find_existing ?ws ?d = Inr None" by simp
    show ?thesis
      unfolding that(1) append_to_master_log_loaded [OF l] merge_into_no_match [OF ws n] by simp
  qed
  have old: "append_to_master_log py_str wd st date_override now =
       (case merge_existing py_str (JObj (AList.update ''date'' (JStr ?d) kvs)) (?ws ! i) of
          Inl e \<Rightarrow> (Inl e, st)
        | Inr m \<Rightarrow> (Inr (), File (JObj (AList.update ''workouts'' (JArr (?ws[i := m])) lg))))"
    if "wd = JObj kvs" "r = Some i" for kvs i
  proof -
    from r that(2) have s: "find_existing ?ws ?d = Inr (Some i)" by simp
    from p that(2) have "i < length ?ws" by simp
    with wf have "wf_workout (?ws ! i)" by (simp add: list_all_length)
    note t = wf_workout_truthy [OF this]
    show ?thesis
      unfolding that(1) append_to_master_log_loaded [OF l] merge_into_match_truthy [OF ws s t]
      by (cases "merge_existing py_str (JObj (AList.update ''date'' (JStr ?d) kvs)) (?ws ! i)")
        simp_all
  qed
  have target: "\<exists>ex xs. ?ws ! i = JObj ex \<and> map_of ex ''exercises'' = Some (JArr xs)"
    if "r = Some i" for i
  proof -
    from p that have "i < length ?ws" by simp
    with wf have "wf_workout (?ws ! i)" by (simp add: list_all_length)
    from wf_workoutD [OF this] show ?thesis by (elim exE conjE) (intro exI conjI)
  qed
  have c1: "\<forall>kvs. wd = JObj kvs \<and> r = None \<longrightarrow>
        append_to_master_log py_str wd st date_override now =
          (Inr (), File (JObj (AList.update ''workouts''
             (JArr (?ws @ [JObj (AList.update ''date'' (JStr ?d) kvs)])) lg)))"
  proof (intro allI impI)
    fix kvs assume "wd = JObj kvs \<and> r = None"
    then show "append_to_master_log py_str wd st date_override now =
          (Inr (), File (JObj (AList.update ''workouts''
             (JArr (?ws @ [JObj (AList.update ''date'' (JStr ?d) kvs)])) lg)))"
      using new [of kvs] by (elim conjE)
  qed
  have c2: "\<forall>kvs i. wd = JObj kvs \<and> r = Some i \<and> map_of kvs ''exercises'' = None \<longrightarrow>
        append_to_master_log py_str wd st date_override now = (Inl KeyError, st)"
  proof (intro allI impI, elim conjE)
    fix kvs i assume wd: "wd = JObj kvs" and ri: "r = Some i"
      and no: "map_of kvs ''exercises'' = None"
    from target [OF ri] obtain ex xs where ex: "?ws ! i = JObj ex"
      and x: "map_of ex ''exercises'' = Some (JArr xs)" by (elim exE conjE)
    from no have no': "map_of (AList.update ''date'' (JStr ?d) kvs) ''exercises'' = None"
      by (simp only: date_keeps)
    show "append_to_master_log py_str wd st date_override now = (Inl KeyError, st)"
      unfolding old [OF wd ri] ex merge_existing_no_exercises [OF x no'] by simp
  qed
  have c3: "\<forall>kvs i v e. wd = JObj kvs \<and> r = Some i \<and> map_of kvs ''exercises'' = Some v \<and>
          py_iter v = Inl e \<longrightarrow>
        append_to_master_log py_str wd st date_override now = (Inl TypeError, st)"
  proof (intro allI impI, elim conjE)
    fix kvs i v e assume wd: "wd = JObj kvs" and ri: "r = Some i"
      and some: "map_of kvs ''exercises'' = Some v" and it: "py_iter v = Inl e"
    from target [OF ri] obtain ex xs where ex: "?ws ! i = JObj ex"
      and x: "map_of ex ''exercises'' = Some (JArr xs)" by (elim exE conjE)
    from some have some': "map_of (AList.update ''date'' (JStr ?d) kvs) ''exercises'' = Some v"
      by (simp only: date_keeps)
    show "append_to_master_log py_str wd st date_override now = (Inl TypeError, st)"
      unfolding old [OF wd ri] ex merge_existing_not_iterable [OF x some' it] by simp
  qed
  have c4: "\<forall>kvs i v ys. wd = JObj kvs \<and> r = Some i \<and> map_of kvs ''exercises'' = Some v \<and>
          py_iter v = Inr ys \<longrightarrow>
        (\<exists>m. append_to_master_log py_str wd st date_override now =
           (Inr (), File (JObj (AList.update ''workouts'' (JArr (?ws[i := m])) lg))) \<and>
           exercises_of m = exercises_of (?ws ! i) @ ys)"
  proof (intro allI impI, elim conjE)
    fix kvs i v ys assume wd: "wd = JObj kvs" and ri: "r = Some i"
      and some: "map_of kvs ''exercises'' = Some v" and it: "py_iter v = Inr ys"
    from target [OF ri] obtain ex xs where ex: "?ws ! i = JObj ex"
      and x: "map_of ex ''exercises'' = Some (JArr xs)" by (elim exE conjE)
    from some have some': "map_of (AList.update ''date'' (JStr ?d) kvs) ''exercises'' = Some v"
      by (simp only: date_keeps)
    from merge_existing_iterable [OF x some' it, of py_str] obtain m
      where m: "merge_existing py_str (JObj (AList.update ''date'' (JStr ?d) kvs)) (JObj ex) =
          Inr (JObj m)"
        and mx: "map_of m ''exercises'' = Some (JArr (xs @ ys))" by (elim exE conjE)
    have a: "append_to_master_log py_str wd st date_override now =
           (Inr (), File (JObj (AList.update ''workouts'' (JArr (?ws[i := JObj m])) lg)))"
      unfolding old [OF wd ri] ex m by simp
    have b: "exercises_of (JObj m) = exercises_of (?ws ! i) @ ys"
      unfolding ex exercises_of_JObj [OF mx] exercises_of_JObj [OF x] ..
    from a b show "\<exists>m. append_to_master_log py_str wd st date_override now =
           (Inr (), File (JObj (AList.update ''workouts'' (JArr (?ws[i := m])) lg))) \<and>
           exercises_of m = exercises_of (?ws ! i) @ ys"
      by (intro exI [of _ "JObj m"] conjI)
  qed
  from l r c1 c2 c3 c4 show ?thesis by (intro exI [of _ lg] exI [of _ r] conjI)
qed

lemma append_to_master_log_cases:
  "(\<exists>e. append_to_master_log py_str wd st date_override now = (Inl e, st)) \<or>
   (\<exists>lg'. append_to_master_log py_str wd st date_override now = (Inr (), File lg'))"
proof (cases "ebind (setitem wd ''date'' (JStr (today_of date_override now))) (\<lambda>wd.
           ebind (load st) (\<lambda>master_log.
             merge_into py_str wd master_log (today_of date_override now)))")
  case (Inl e)
  then have "append_to_master_log py_str wd st date_override now = (Inl e, st)"
    by (simp add: append_to_master_log_def Let_def)
  then show ?thesis by (intro disjI1 exI)
next
  case (Inr lg')
  then have "append_to_master_log py_str wd st date_override now = (Inr (), File lg')"
    by (simp add: append_to_master_log_def Let_def)
  then show ?thesis by (intro disjI2 exI)
qed

text \<open>Step 3 leaves every file other than the two per-run files as it was.\<close>

lemma save_run_files_other:
  assumes "p \<noteq> resolve (transcription_file argv)" and "p \<noteq> resolve (workout_file argv)"
  shows "save_run_files json_loads resolve argv t wd fs p = fs p"
  using assms by (simp add: save_run_files_def)

lemma main_failure:
  assumes m: "main py_str json_loads resolve argv upstream fs now = (code, fs')"
    and c: "code \<noteq> 0"
  shows "code = 1 \<and>
     (resolve (master_log_path argv) \<noteq> resolve (transcription_file argv) \<and>
      resolve (master_log_path argv) \<noteq> resolve (workout_file argv) \<longrightarrow>
      fs' (resolve (master_log_path argv)) = fs (resolve (master_log_path argv)))"
proof (cases "length argv < 2")
  case True
  with m show ?thesis by (simp add: main_def)
next
  case l: False
  show ?thesis
  proof (cases upstream)
    case None
    with m l show ?thesis by (simp add: main_def)
  next
    case (Some tw)
    obtain t wd where tw: "tw = (t, wd)" by (cases tw)
    let ?fs3 = "save_run_files json_loads resolve argv t wd fs"
    let ?log = "resolve (master_log_path argv)"
    from append_to_master_log_cases [of py_str wd "?fs3 ?log" "date_override_of argv" now]
    show ?thesis
    proof (elim disjE exE)
      fix e assume a: "append_to_master_log py_str wd (?fs3 ?log) (date_override_of argv) now =
          (Inl e, ?fs3 ?log)"
      from m have code: "code = 1" and fs': "fs' = ?fs3(?log := ?fs3 ?log)"
        unfolding Some tw main_def Let_def using l a by simp_all
      from fs' have "fs' ?log = ?fs3 ?log" by simp
      with code save_run_files_other [of ?log resolve argv json_loads t wd fs]
      show ?thesis by simp
    next
      fix lg' assume a: "append_to_master_log py_str wd (?fs3 ?log) (date_override_of argv) now =
          (Inr (), File lg')"
      from m c show ?thesis unfolding Some tw main_def Let_def using l a by simp
    qed
  qed
qed

text \<open>
  Claim C2, amended. The incoming data is never validated; on a well-formed store the
  outcome of a call is decided by the scan alone. When no workout of the date exists,
  any dictionary, valid or not, is appended and written. When one exists, the call
  raises \<open>KeyError\<close> if the incoming dictionary has no \<open>exercises\<close> and \<open>TypeError\<close> if
  they cannot be iterated, and writes nothing; otherwise whatever \<open>exercises\<close> yields is
  appended to the workout and written. Incoming data that is not a dictionary raises
  \<open>TypeError\<close> and nothing is written. A process that ends with a status other than 0
  ends with status 1, and the log file is then as it was before the run, provided it is
  neither of the two per-run files, which step 3 overwrites before the merge.
\<close>

theorem unvalidated_run_outcome:
  assumes st: "wf_store st"
  shows "(\<exists>lg r. load st = Inr (JObj lg) \<and>
     find_existing (stored_workouts st) (today_of date_override now) = Inr r \<and>
     (\<forall>kvs. wd = JObj kvs \<and> r = None \<longrightarrow>
        append_to_master_log py_str wd st date_override now =
          (Inr (), File (JObj (AList.update ''workouts''
             (JArr (stored_workouts st @
                [JObj (AList.update ''date'' (JStr (today_of date_override now)) kvs)])) lg)))) \<and>
     (\<forall>kvs i. wd = JObj kvs \<and> r = Some i \<and> map_of kvs ''exercises'' = None \<longrightarrow>
        append_to_master_log py_str wd st date_override now = (Inl KeyError, st)) \<and>
     (\<forall>kvs i v e. wd = JObj kvs \<and> r = Some i \<and> map_of kvs ''exercises'' = Some v \<and>
          py_iter v = Inl e \<longrightarrow>
        append_to_master_log py_str wd st date_override now = (Inl TypeError, st)) \<and>
     (\<forall>kvs i v ys. wd = JObj kvs \<and> r = Some i \<and> map_of kvs ''exercises'' = Some v \<and>
          py_iter v = Inr ys \<longrightarrow>
        (\<exists>m. append_to_master_log py_str wd st date_override now =
           (Inr (), File (JObj (AList.update ''workouts''
              (JArr ((stored_workouts st)[i := m])) lg))) \<and>
           exercises_of m = exercises_of (stored_workouts st ! i) @ ys))) \<and>
   ((\<forall>kvs. wd \<noteq> JObj kvs) \<longrightarrow>
      append_to_master_log py_str wd st date_override now = (Inl TypeError, st)) \<and>
   (\<forall>code fs'. main py_str json_loads resolve argv upstream fs now = (code, fs') \<and> code \<noteq> 0 \<longrightarrow>
      code = 1 \<and>
      (resolve (master_log_path argv) \<noteq> resolve (transcription_file argv) \<and>
       resolve (master_log_path argv) \<noteq> resolve (workout_file argv) \<longrightarrow>
       fs' (resolve (master_log_path argv)) = fs (resolve (master_log_path argv))))"
proof -
  note a = append_to_master_log_outcome [OF st, of date_override now wd py_str]
  have b: "(\<forall>kvs. wd \<noteq> JObj kvs) \<longrightarrow>
      append_to_master_log py_str wd st date_override now = (Inl TypeError, st)"
    using append_to_master_log_not_dict by (intro impI)
  have c: "\<forall>code fs'. main py_str json_loads resolve argv upstream fs now = (code, fs') \<and> code \<noteq> 0 \<longrightarrow>
      code = 1 \<and>
      (resolve (master_log_path argv) \<noteq> resolve (transcription_file argv) \<and>
       resolve (master_log_path argv) \<noteq> resolve (workout_file argv) \<longrightarrow>
       fs' (resolve (master_log_path argv)) = fs (resolve (master_log_path argv)))"
  proof (intro allI impI)
    fix code fs'
    assume h: "main py_str json_loads resolve argv upstream fs now = (code, fs') \<and> code \<noteq> 0"
    from h [THEN conjunct1] h [THEN conjunct2] show "code = 1 \<and>
      (resolve (master_log_path argv) \<noteq> resolve (transcription_file argv) \<and>
       resolve (master_log_path argv) \<noteq> resolve (workout_file argv) \<longrightarrow>
       fs' (resolve (master_log_path argv)) = fs (resolve (master_log_path argv)))"
      by (rule main_failure)
  qed
  from a b c show ?thesis by (intro conjI)
qed

text \<open>
  A record without exercises: persisted when the log has no workout of the day;
  \<open>KeyError\<close>, exit status 1 and an unchanged log when it has one.
\<close>

theorem unvalidated_run_outcome_witness:
  "\<not> valid_record (JObj [(''notes'', JStr ''rest day'')]) \<and>
   wf_store (fs_example ''log.json'') \<and>
   append_to_master_log py_str_example (JObj [(''notes'', JStr ''rest day'')])
     (fs_example ''log.json'') (Some ''2025-11-01'') ''2025-11-02'' =
     (Inr (), File (JObj [(''workouts'', JArr
        [JObj [(''date'', JStr ''2025-11-02''), (''exercises'', JArr [])],
         JObj [(''notes'', JStr ''rest day''), (''date'', JStr ''2025-11-01'')]])])) \<and>
   append_to_master_log py_str_example (JObj [(''notes'', JStr ''rest day'')])
     (fs_example ''log.json'') (Some ''2025-11-02'') ''2025-11-02'' =
     (Inl KeyError, fs_example ''log.json'') \<and>
   (\<exists>fs'. main py_str_example not_json path_itself
        [''whisper_stt.py'', ''a.mp3'', ''base'', ''llama3.2'', ''log.json'', ''2025-11-02'']
        (Some (''rest day'', JObj [(''notes'', JStr ''rest day'')])) fs_example ''2025-11-02'' =
        (1, fs') \<and>
      fs' ''log.json'' = fs_example ''log.json'')"
proof -
  let ?wd = "JObj [(''notes'', JStr ''rest day'')]"
  let ?w = "JObj [(''date'', JStr ''2025-11-02''), (''exercises'', JArr [])]"
  let ?st = "fs_example ''log.json''"
  let ?argv = "[''whisper_stt.py'', ''a.mp3'', ''base'', ''llama3.2'', ''log.json'', ''2025-11-02'']"
  let ?up = "Some (''rest day'', ?wd)"
  have st: "?st = File (JObj [(''workouts'', JArr [?w])])" by (simp add: fs_example_def)
  have h0: "\<not> valid_record ?wd" by (simp add: valid_record_def)
  have h1: "wf_store ?st" by (simp add: st wf_store_def wf_log_def wf_workout_def)
  have sw: "stored_workouts ?st = [?w]"
    by (simp add: st stored_workouts_def load_def workouts_of_def)
  have ld: "load ?st = Inr (JObj [(''workouts'', JArr [?w])])" by (simp add: st load_def)
  have t1: "today_of (Some ''2025-11-01'') ''2025-11-02'' = ''2025-11-01''"
    by (simp add: today_of_def)
  have t2: "today_of (Some ''2025-11-02'') ''2025-11-02'' = ''2025-11-02''"
    by (simp add: today_of_def)
  have f1: "find_existing [?w] ''2025-11-01'' = Inr None" by simp
  have f2: "find_existing [?w] ''2025-11-02'' = Inr (Some 0)" by simp
  from unvalidated_run_outcome [OF h1, where date_override = "Some ''2025-11-01''"
      and now = "''2025-11-02''" and wd = ?wd and py_str = py_str_example, THEN conjunct1]
  obtain lg r where l: "load ?st = Inr (JObj lg)"
    and r: "find_existing (stored_workouts ?st) (today_of (Some ''2025-11-01'') ''2025-11-02'') = Inr r"
    and c1: "\<forall>kvs. ?wd = JObj kvs \<and> r = None \<longrightarrow>
        append_to_master_log py_str_example ?wd ?st (Some ''2025-11-01'') ''2025-11-02'' =
          (Inr (), File (JObj (AList.update ''workouts''
             (JArr (stored_workouts ?st @
                [JObj (AList.update ''date'' (JStr (today_of (Some ''2025-11-01'') ''2025-11-02'')) kvs)]))
             lg)))"
    by (elim exE conjE)
  from l ld have lg: "lg = [(''workouts'', JArr [?w])]" by simp
  from r have rn: "r = None" unfolding sw t1 f1 by simp
  from c1 [rule_format, of "[(''notes'', JStr ''rest day'')]"] rn
  have a: "append_to_master_log py_str_example ?wd ?st (Some ''2025-11-01'') ''2025-11-02'' =
     (Inr (), File (JObj [(''workouts'', JArr
        [?w, JObj [(''notes'', JStr ''rest day''), (''date'', JStr ''2025-11-01'')]])]))"
    unfolding sw t1 lg by simp
  from unvalidated_run_outcome [OF h1, where date_override = "Some ''2025-11-02''"
      and now = "''2025-11-02''" and wd = ?wd and py_str = py_str_example, THEN conjunct1]
  obtain lg2 r2 where r2: "find_existing (stored_workouts ?st)
        (today_of (Some ''2025-11-02'') ''2025-11-02'') = Inr r2"
    and c2: "\<forall>kvs i. ?wd = JObj kvs \<and> r2 = Some i \<and> map_of kvs ''exercises'' = None \<longrightarrow>
        append_to_master_log py_str_example ?wd ?st (Some ''2025-11-02'') ''2025-11-02'' =
          (Inl KeyError, ?st)"
    by (elim exE conjE)
  from r2 have rs: "r2 = Some 0" unfolding sw t2 f2 by simp
  from c2 [rule_format, of "[(''notes'', JStr ''rest day'')]" 0] rs
  have b: "append_to_master_log py_str_example ?wd ?st (Some ''2025-11-02'') ''2025-11-02'' =
     (Inl KeyError, ?st)" by simp
  have paths: "master_log_path ?argv = ''log.json''" "date_override_of ?argv = Some ''2025-11-02''"
    "transcription_file ?argv = ''a_transcription.txt''" "workout_file ?argv = ''a_workout.json''"
    by (simp_all add: master_log_path_def date_override_of_def transcription_file_def
        workout_file_def base_name_def)
  have s3: "save_run_files not_json path_itself ?argv ''rest day'' ?wd fs_example ''log.json'' = ?st"
    by (simp add: save_run_files_def paths path_itself_def)
  obtain code fs' where m: "main py_str_example not_json path_itself ?argv ?up fs_example
      ''2025-11-02'' = (code, fs')"
    by (cases "main py_str_example not_json path_itself ?argv ?up fs_example ''2025-11-02''")
  have "fst (main py_str_example not_json path_itself ?argv ?up fs_example ''2025-11-02'') = 1"
    unfolding main_def Let_def by (simp add: paths path_itself_def s3 b)
  with m have code: "code \<noteq> 0" by simp
  from unvalidated_run_outcome [OF h1, where py_str = py_str_example and json_loads = not_json
      and resolve = path_itself and argv = ?argv and upstream = ?up and fs = fs_example
      and now = "''2025-11-02''",
      THEN conjunct2, THEN conjunct2, rule_format, of code fs'] m code
  have c: "code = 1" and d: "path_itself (master_log_path ?argv) \<noteq> path_itself (transcription_file ?argv) \<and>
       path_itself (master_log_path ?argv) \<noteq> path_itself (workout_file ?argv) \<longrightarrow>
       fs' (path_itself (master_log_path ?argv)) = fs_example (path_itself (master_log_path ?argv))"
    by simp_all
  from d have e: "fs' ''log.json'' = fs_example ''log.json''"
    by (simp add: paths path_itself_def)
  from m c e have "\<exists>fs'. main py_str_example not_json path_itself ?argv ?up fs_example
      ''2025-11-02'' = (1, fs') \<and> fs' ''log.json'' = fs_example ''log.json''"
    by (intro exI [of _ fs'] conjI) simp_all
  with h0 h1 a b show ?thesis by (intro conjI)
qed

section \<open>Repeated merges for one date\<close>

lemma prefix_iff_take: "prefix d s \<longleftrightarrow> take (length d) s = d"
  by (metis append_eq_conv_conj prefix_def take_is_prefix)

lemma iso_date_length: "iso_date d \<Longrightarrow> length d = 10"
  by (simp add: iso_date_def)

lemma matches_calendar_date:
  "length d = 10 \<Longrightarrow> prefix d (stored_date w) \<longleftrightarrow> calendar_date w = d"
  by (simp add: prefix_iff_take calendar_date_def)

lemma sum_list_map_update:
  "i < length ws \<Longrightarrow>
   sum_list (map g (ws[i := m])) + g (ws ! i) = sum_list (map g ws) + (g m :: nat)"
proof (induction ws arbitrary: i)
  case Nil
  then show ?case by simp
next
  case (Cons w ws)
  show ?case
  proof (cases i)
    case 0
    then show ?thesis by simp
  next
    case (Suc j)
    with Cons.prems have "j < length ws" by simp
    from Cons.IH [OF this] Suc show ?thesis by simp
  qed
qed

lemma day_total_filter:
  "day_total d ws =
     sum_list (map (\<lambda>w. length (exercises_of w)) (filter (\<lambda>w. calendar_date w = d) ws))"
  by (induction ws) (simp_all add: day_total_def)

lemma filter_one_per_date:
  "one_per_date ws \<Longrightarrow> length (filter (\<lambda>w. calendar_date w = d) ws) \<le> 1"
proof (induction ws)
  case Nil
  then show ?case by simp
next
  case (Cons w ws)
  from Cons.prems have notin: "calendar_date w \<notin> calendar_date ` set ws"
    and rest: "one_per_date ws" by (simp_all add: one_per_date_def)
  show ?case
  proof (cases "calendar_date w = d")
    case True
    with notin have "\<forall>x \<in> set ws. \<not> calendar_date x = d" by (metis image_eqI)
    then have "filter (\<lambda>w. calendar_date w = d) ws = []" by (simp add: filter_empty_conv)
    with True show ?thesis by simp
  next
    case False
    with Cons.IH [OF rest] show ?thesis by simp
  qed
qed

lemma day_total_one_per_date:
  assumes "one_per_date ws"
  shows "day_total d ws =
     (case filter (\<lambda>w. calendar_date w = d) ws of [] \<Rightarrow> 0 | r # rs \<Rightarrow> length (exercises_of r))"
proof (cases "filter (\<lambda>w. calendar_date w = d) ws")
  case Nil
  then show ?thesis by (simp add: day_total_filter)
next
  case (Cons r rs)
  with filter_one_per_date [OF assms, of d] have "rs = []" by simp
  with Cons show ?thesis by (simp add: day_total_filter)
qed

text \<open>One merge for the date \<open>d\<close> into a well-formed log with one workout per date.\<close>

lemma merge_day_step:
  assumes wf: "list_all wf_workout ws" and inv: "one_per_date ws"
    and lg: "map_of lg ''workouts'' = Some (JArr ws)"
    and e: "map_of wd ''exercises'' = Some (JArr es)" and len: "length d = 10"
  shows "\<exists>ws'. merge_into py_str (JObj wd) (JObj lg) d =
        Inr (JObj (AList.update ''workouts'' (JArr ws') lg)) \<and>
     list_all wf_workout ws' \<and> one_per_date ws' \<and> d \<in> calendar_date ` set ws' \<and>
     day_total d ws' = day_total d ws + length es"
proof -
  from merge_into_wf [OF wf lg e, of py_str d] obtain ws'
    where eq: "merge_into py_str (JObj wd) (JObj lg) d =
        Inr (JObj (AList.update ''workouts'' (JArr ws') lg))"
      and wf': "list_all wf_workout ws'"
      and how: "(\<forall>w \<in> set ws. \<not> prefix d (stored_date w)) \<and>
        (\<exists>new. ws' = ws @ [new] \<and> stored_date new = d \<and> exercises_of new = es) \<or>
      (\<exists>i m. i < length ws \<and> prefix d (stored_date (ws ! i)) \<and> ws' = ws[i := m] \<and>
        stored_date m = stored_date (ws ! i) \<and>
        exercises_of m = exercises_of (ws ! i) @ es)"
    by (elim exE conjE)
  from how have "one_per_date ws' \<and> d \<in> calendar_date ` set ws' \<and>
     day_total d ws' = day_total d ws + length es"
  proof (elim disjE conjE exE)
    fix new
    assume no: "\<forall>w \<in> set ws. \<not> prefix d (stored_date w)" and ws': "ws' = ws @ [new]"
      and sd: "stored_date new = d" and ex: "exercises_of new = es"
    from sd len have cd: "calendar_date new = d" by (simp add: calendar_date_def)
    from no have notin: "d \<notin> calendar_date ` set ws"
      by (auto simp: matches_calendar_date [OF len])
    from inv notin have 1: "one_per_date ws'" by (simp add: ws' one_per_date_def cd)
    have 2: "d \<in> calendar_date ` set ws'" by (simp add: ws' cd)
    have 3: "day_total d ws' = day_total d ws + length es"
      by (simp add: ws' day_total_def cd ex)
    from 1 2 3 show ?thesis by (intro conjI)
  next
    fix i m
    assume i: "i < length ws" and p: "prefix d (stored_date (ws ! i))" and ws': "ws' = ws[i := m]"
      and sd: "stored_date m = stored_date (ws ! i)"
      and ex: "exercises_of m = exercises_of (ws ! i) @ es"
    from p have ci: "calendar_date (ws ! i) = d" by (simp add: matches_calendar_date [OF len])
    from sd have cm: "calendar_date m = calendar_date (ws ! i)" by (simp add: calendar_date_def)
    have "map calendar_date ws' = (map calendar_date ws)[i := calendar_date (ws ! i)]"
      by (simp add: ws' map_update cm)
    also have "\<dots> = map calendar_date ws"
      by (metis list_update_id map_update)
    finally have same: "map calendar_date ws' = map calendar_date ws" .
    from inv have 1: "one_per_date ws'" by (simp add: one_per_date_def same)
    from i have "m \<in> set ws'" unfolding ws' by (rule set_update_memI)
    then have "calendar_date m \<in> calendar_date ` set ws'" by (rule imageI)
    then have 2: "d \<in> calendar_date ` set ws'" by (simp only: cm ci)
    let ?g = "\<lambda>w. if calendar_date w = d then length (exercises_of w) else 0"
    from sum_list_map_update [OF i, of ?g m]
    have "day_total d ws' + ?g (ws ! i) = day_total d ws + ?g m"
      by (simp only: day_total_def ws')
    then have 3: "day_total d ws' = day_total d ws + length es"
      by (simp add: ci cm ex)
    from 1 2 3 show ?thesis by (intro conjI)
  qed
  with eq wf' show ?thesis by (intro exI [of _ ws'] conjI) simp_all
qed

lemma merge_date_only_step:
  assumes wf: "list_all wf_workout ws" and lg: "map_of lg ''workouts'' = Some (JArr ws)"
    and e: "map_of wd ''exercises'' = Some (JArr es)" and d: "iso_date d"
    and only: "date_only ws"
    and eq: "merge_into py_str (JObj wd) (JObj lg) d =
        Inr (JObj (AList.update ''workouts'' (JArr ws') lg))"
  shows "date_only ws'"
proof -
  from merge_into_wf [OF wf lg e, of py_str d] obtain ws2
    where eq2: "merge_into py_str (JObj wd) (JObj lg) d =
        Inr (JObj (AList.update ''workouts'' (JArr ws2) lg))"
      and how: "(\<forall>w \<in> set ws. \<not> prefix d (stored_date w)) \<and>
        (\<exists>new. ws2 = ws @ [new] \<and> stored_date new = d \<and> exercises_of new = es) \<or>
      (\<exists>i m. i < length ws \<and> prefix d (stored_date (ws ! i)) \<and> ws2 = ws[i := m] \<and>
        stored_date m = stored_date (ws ! i) \<and>
        exercises_of m = exercises_of (ws ! i) @ es)"
    by (elim exE conjE)
  from eq eq2 have "AList.update ''workouts'' (JArr ws') lg = AList.update ''workouts'' (JArr ws2) lg"
    by simp
  from update_eqD [OF this] have same: "ws' = ws2" by simp
  from how show ?thesis unfolding same
  proof (elim disjE conjE exE)
    fix new assume "ws2 = ws @ [new]" "stored_date new = d"
    with only d show "date_only ws2" by (simp add: date_only_def)
  next
    fix i m assume i: "i < length ws" and u: "ws2 = ws[i := m]"
      and sd: "stored_date m = stored_date (ws ! i)"
    from only i have "iso_date (stored_date (ws ! i))" by (simp add: date_only_def list_all_length)
    with sd have "iso_date (stored_date m)" by simp
    with only i show "date_only ws2" unfolding u date_only_def
      by (auto simp: list_all_length nth_list_update)
  qed
qed

lemma exercises_of_valid:
  "wd = JObj kvs \<Longrightarrow> map_of kvs ''exercises'' = Some (JArr es) \<Longrightarrow> exercises_of wd = es"
  by (simp add: exercises_of_def)

lemma sequential_merges_loaded:
  assumes d: "iso_date d"
  shows "list_all valid_record wds \<Longrightarrow> load st = Inr (JObj lg) \<Longrightarrow>
     map_of lg ''workouts'' = Some (JArr ws) \<Longrightarrow> list_all wf_workout ws \<Longrightarrow> one_per_date ws \<Longrightarrow>
     \<exists>st' lg' ws'. sequential_merges py_str wds st (Some d) now = (Inr (), st') \<and>
       load st' = Inr (JObj lg') \<and>
       (wds \<noteq> [] \<longrightarrow> st' = File (JObj lg')) \<and>
       ((\<exists>j. st = File j) \<longrightarrow> st' = File (JObj lg')) \<and>
       map_of lg' ''workouts'' = Some (JArr ws') \<and>
       list_all wf_workout ws' \<and> one_per_date ws' \<and>
       (wds \<noteq> [] \<longrightarrow> d \<in> calendar_date ` set ws') \<and>
       (date_only ws \<longrightarrow> date_only ws') \<and>
       day_total d ws' = day_total d ws + sum_list (map (\<lambda>wd. length (exercises_of wd)) wds)"
proof (induction wds arbitrary: st lg ws)
  case Nil
  have f: "(\<exists>j. st = File j) \<longrightarrow> st = File (JObj lg)"
    using Nil.prems(2) by (cases st) (simp_all add: load_def)
  from Nil.prems f show ?case
    by (intro exI [of _ st] exI [of _ lg] exI [of _ ws]) simp
next
  case (Cons wd wds)
  from Cons.prems(1) have v: "valid_record wd" and vs: "list_all valid_record wds" by simp_all
  from valid_recordD [OF v] obtain kvs es where wd: "wd = JObj kvs"
    and e: "map_of kvs ''exercises'' = Some (JArr es)" by (elim exE conjE)
  note len = iso_date_length [OF d]
  from len have dne: "d \<noteq> []" by auto
  have today: "today_of (Some d) now = d" by (rule today_of_override [OF dne])
  have e': "map_of (AList.update ''date'' (JStr d) kvs) ''exercises'' = Some (JArr es)"
    by (simp add: update_conv' e)
  from merge_day_step [OF Cons.prems(4) Cons.prems(5) Cons.prems(3) e' len, of py_str]
  obtain ws1 where m: "merge_into py_str (JObj (AList.update ''date'' (JStr d) kvs)) (JObj lg) d =
        Inr (JObj (AList.update ''workouts'' (JArr ws1) lg))"
    and wf1: "list_all wf_workout ws1" and inv1: "one_per_date ws1"
    and in1: "d \<in> calendar_date ` set ws1"
    and t1: "day_total d ws1 = day_total d ws + length es"
    by (elim exE conjE)
  let ?lg1 = "AList.update ''workouts'' (JArr ws1) lg"
  have run: "append_to_master_log py_str wd st (Some d) now = (Inr (), File (JObj ?lg1))"
    unfolding wd append_to_master_log_loaded [OF Cons.prems(2)] today m by simp
  have l1: "load (File (JObj ?lg1)) = Inr (JObj ?lg1)" by (simp add: load_def)
  have w1: "map_of ?lg1 ''workouts'' = Some (JArr ws1)" by (simp add: update_conv')
  from Cons.IH [OF vs l1 w1 wf1 inv1] obtain st' lg' ws'
    where s: "sequential_merges py_str wds (File (JObj ?lg1)) (Some d) now = (Inr (), st')"
      and l': "load st' = Inr (JObj lg')"
      and f': "(\<exists>j. File (JObj ?lg1) = File j) \<longrightarrow> st' = File (JObj lg')"
      and w': "map_of lg' ''workouts'' = Some (JArr ws')"
      and wf': "list_all wf_workout ws'" and inv': "one_per_date ws'"
      and in': "wds \<noteq> [] \<longrightarrow> d \<in> calendar_date ` set ws'"
      and only': "date_only ws1 \<longrightarrow> date_only ws'"
      and t': "day_total d ws' = day_total d ws1 +
          sum_list (map (\<lambda>wd. length (exercises_of wd)) wds)"
    by (elim exE conjE)
  from f' have st': "st' = File (JObj lg')" by simp
  have ind: "d \<in> calendar_date ` set ws'"
  proof (cases wds)
    case Nil
    with s have "st' = File (JObj ?lg1)" by simp
    with st' have "lg' = ?lg1" by simp
    with w' w1 have "ws' = ws1" by simp
    with in1 show ?thesis by simp
  next
    case (Cons a list)
    with in' show ?thesis by simp
  qed
  have only: "date_only ws \<longrightarrow> date_only ws'"
  proof
    assume "date_only ws"
    from merge_date_only_step [OF Cons.prems(4) Cons.prems(3) e' d this m] only'
    show "date_only ws'" by simp
  qed
  have seq: "sequential_merges py_str (wd # wds) st (Some d) now = (Inr (), st')"
    by (simp add: run s)
  have tot: "day_total d ws' = day_total d ws +
      sum_list (map (\<lambda>wd. length (exercises_of wd)) (wd # wds))"
    using t' t1 exercises_of_valid [OF wd e] by simp
  from st' have f1: "wd # wds \<noteq> [] \<longrightarrow> st' = File (JObj lg')"
    and f2: "(\<exists>j. st = File j) \<longrightarrow> st' = File (JObj lg')" by simp_all
  from ind have f3: "wd # wds \<noteq> [] \<longrightarrow> d \<in> calendar_date ` set ws'" by simp
  from seq l' f1 f2 w' wf' inv' f3 only tot show ?case
    by (intro exI [of _ st'] exI [of _ lg'] exI [of _ ws'] conjI)
qed

text \<open>
  Claim C1. Start from a well-formed store whose workouts have pairwise different
  calendar dates, take a date \<open>d\<close> of the form \<open>YYYY-MM-DD\<close> and run the program once
  for each record of a non-empty sequence of valid incoming records, each time with the
  date override \<open>d\<close>. Every run returns; the final log still has one workout per
  calendar date and exactly one workout whose calendar date is \<open>d\<close> (exactly one whose
  stored date is \<open>d\<close>, when the stored dates of the initial log have no time part); and
  that workout has as many exercises as the workout of that date had at the start (none
  if there was no such workout) plus the lengths of all the incoming exercise lists:
  nothing is deduplicated.
\<close>

theorem same_day_merges_accumulate:
  assumes st: "wf_store st" and inv: "one_per_date (stored_workouts st)"
    and d: "iso_date d" and v: "list_all valid_record wds" and k: "wds \<noteq> []"
  shows "\<exists>lg' r. sequential_merges py_str wds st (Some d) now = (Inr (), File lg') \<and>
     one_per_date (workouts_of lg') \<and>
     filter (\<lambda>w. calendar_date w = d) (workouts_of lg') = [r] \<and>
     (date_only (stored_workouts st) \<longrightarrow>
        filter (\<lambda>w. stored_date w = d) (workouts_of lg') = [r]) \<and>
     length (exercises_of r) =
       (case filter (\<lambda>w. calendar_date w = d) (stored_workouts st) of
          [] \<Rightarrow> 0
        | r0 # rs \<Rightarrow> length (exercises_of r0)) +
       sum_list (map (\<lambda>wd. length (exercises_of wd)) wds)"
proof -
  from wf_storeD [OF st] obtain lg where l: "load st = Inr (JObj lg)"
    and ws: "map_of lg ''workouts'' = Some (JArr (stored_workouts st))"
    and wf: "list_all wf_workout (stored_workouts st)" by (elim exE conjE)
  from sequential_merges_loaded [OF d v l ws wf inv, of py_str now]
  obtain st' lg' ws'
    where s: "sequential_merges py_str wds st (Some d) now = (Inr (), st')"
      and f: "wds \<noteq> [] \<longrightarrow> st' = File (JObj lg')"
      and w': "map_of lg' ''workouts'' = Some (JArr ws')"
      and inv': "one_per_date ws'"
      and in': "wds \<noteq> [] \<longrightarrow> d \<in> calendar_date ` set ws'"
      and only: "date_only (stored_workouts st) \<longrightarrow> date_only ws'"
      and t: "day_total d ws' = day_total d (stored_workouts st) +
          sum_list (map (\<lambda>wd. length (exercises_of wd)) wds)"
    by (elim exE conjE)
  from f k have st': "st' = File (JObj lg')" by simp
  from in' k have "d \<in> calendar_date ` set ws'" by simp
  then have "\<not> (\<forall>x \<in> set ws'. \<not> calendar_date x = d)" by (metis imageE)
  then have ne: "filter (\<lambda>w. calendar_date w = d) ws' \<noteq> []" by (simp add: filter_empty_conv)
  then obtain r rs where r: "filter (\<lambda>w. calendar_date w = d) ws' = r # rs"
    by (cases "filter (\<lambda>w. calendar_date w = d) ws'") simp_all
  with filter_one_per_date [OF inv', of d] have "rs = []" by simp
  with r have one: "filter (\<lambda>w. calendar_date w = d) ws' = [r]" by simp
  have wo: "workouts_of (JObj lg') = ws'" by (simp add: workouts_of_def w')
  have "length (exercises_of r) = day_total d ws'"
    by (simp add: day_total_one_per_date [OF inv'] one)
  also note t
  also note day_total_one_per_date [OF inv, of d]
  finally have len: "length (exercises_of r) =
       (case filter (\<lambda>w. calendar_date w = d) (stored_workouts st) of
          [] \<Rightarrow> 0
        | r0 # rs \<Rightarrow> length (exercises_of r0)) +
       sum_list (map (\<lambda>wd. length (exercises_of wd)) wds)" .
  from s st' have s': "sequential_merges py_str wds st (Some d) now = (Inr (), File (JObj lg'))"
    by simp
  from inv' wo have i2: "one_per_date (workouts_of (JObj lg'))" by simp
  from one wo have o2: "filter (\<lambda>w. calendar_date w = d) (workouts_of (JObj lg')) = [r]" by simp
  have o3: "date_only (stored_workouts st) \<longrightarrow>
        filter (\<lambda>w. stored_date w = d) (workouts_of (JObj lg')) = [r]"
  proof
    assume "date_only (stored_workouts st)"
    with only have "date_only ws'" by simp
    then have "\<forall>w \<in> set ws'. calendar_date w = stored_date w"
      by (simp add: date_only_def list_all_iff calendar_date_def iso_date_length)
    then have "filter (\<lambda>w. stored_date w = d) ws' = filter (\<lambda>w. calendar_date w = d) ws'"
      by (intro filter_cong refl) simp
    with one wo show "filter (\<lambda>w. stored_date w = d) (workouts_of (JObj lg')) = [r]" by simp
  qed
  from s' i2 o2 o3 len show ?thesis by (intro exI [of _ "JObj lg'"] exI [of _ r] conjI)
qed

text \<open>Two merges of two and one exercises into a day that holds one exercise give four.\<close>

theorem same_day_merges_accumulate_witness:
  "wf_store (File (JObj [(''workouts'', JArr
      [JObj [(''date'', JStr ''2025-10-31''), (''exercises'', JArr [JObj [(''name'', JStr ''row'')]])],
       JObj [(''date'', JStr ''2025-11-01''), (''exercises'', JArr [JObj [(''name'', JStr ''squat'')]])]])])) \<and>
   iso_date ''2025-11-01'' \<and>
   (\<exists>lg' r. sequential_merges py_str_example
      [JObj [(''exercises'', JArr [JObj [(''name'', JStr ''bench'')], JObj [(''name'', JStr ''curl'')]])],
       JObj [(''exercises'', JArr [JObj [(''name'', JStr ''bench'')]])]]
      (File (JObj [(''workouts'', JArr
      [JObj [(''date'', JStr ''2025-10-31''), (''exercises'', JArr [JObj [(''name'', JStr ''row'')]])],
       JObj [(''date'', JStr ''2025-11-01''), (''exercises'', JArr [JObj [(''name'', JStr ''squat'')]])]])]))
      (Some ''2025-11-01'') ''2025-11-02'' = (Inr (), File lg') \<and>
      filter (\<lambda>w. stored_date w = ''2025-11-01'') (workouts_of lg') = [r] \<and>
      length (exercises_of r) = 4)"
proof -
  let ?w0 = "JObj [(''date'', JStr ''2025-10-31''), (''exercises'', JArr [JObj [(''name'', JStr ''row'')]])]"
  let ?w1 = "JObj [(''date'', JStr ''2025-11-01''), (''exercises'', JArr [JObj [(''name'', JStr ''squat'')]])]"
  let ?st = "File (JObj [(''workouts'', JArr [?w0, ?w1])])"
  let ?a = "JObj [(''exercises'', JArr [JObj [(''name'', JStr ''bench'')], JObj [(''name'', JStr ''curl'')]])]"
  let ?b = "JObj [(''exercises'', JArr [JObj [(''name'', JStr ''bench'')]])]"
  have sw: "stored_workouts ?st = [?w0, ?w1]"
    by (simp add: stored_workouts_def load_def workouts_of_def)
  have c0: "calendar_date ?w0 = ''2025-10-31''" by (simp add: calendar_date_def stored_date_def)
  have c1: "calendar_date ?w1 = ''2025-11-01''" by (simp add: calendar_date_def stored_date_def)
  have h1: "wf_store ?st" by (simp add: wf_store_def wf_log_def wf_workout_def)
  have h2: "one_per_date (stored_workouts ?st)"
    unfolding sw one_per_date_def by (simp add: c0 c1)
  have h3: "iso_date ''2025-11-01''" by (simp add: iso_date_def is_digit_def)
  have h4: "list_all valid_record [?a, ?b]"
    by (simp add: valid_record_def valid_exercise_def)
  have h5: "[?a, ?b] \<noteq> []" by simp
  have base: "(case filter (\<lambda>w. calendar_date w = ''2025-11-01'') (stored_workouts ?st) of
          [] \<Rightarrow> 0
        | r0 # rs \<Rightarrow> length (exercises_of r0)) = 1"
    unfolding sw by (simp add: c0 c1 exercises_of_def)
  have inc: "sum_list (map (\<lambda>wd. length (exercises_of wd)) [?a, ?b]) = 3"
    by (simp add: exercises_of_def)
  from same_day_merges_accumulate [OF h1 h2 h3 h4 h5, of py_str_example "''2025-11-02''"]
  obtain lg' r where s: "sequential_merges py_str_example [?a, ?b] ?st (Some ''2025-11-01'')
        ''2025-11-02'' = (Inr (), File lg')"
    and one: "date_only (stored_workouts ?st) \<longrightarrow>
        filter (\<lambda>w. stored_date w = ''2025-11-01'') (workouts_of lg') = [r]"
    and len: "length (exercises_of r) =
       (case filter (\<lambda>w. calendar_date w = ''2025-11-01'') (stored_workouts ?st) of
          [] \<Rightarrow> 0
        | r0 # rs \<Rightarrow> length (exercises_of r0)) +
       sum_list (map (\<lambda>wd. length (exercises_of wd)) [?a, ?b])"
    by (elim exE conjE)
  have h6: "date_only (stored_workouts ?st)"
    unfolding sw by (simp add: date_only_def stored_date_def iso_date_def is_digit_def)
  from one h6 have one': "filter (\<lambda>w. stored_date w = ''2025-11-01'') (workouts_of lg') = [r]"
    by simp
  from len have "length (exercises_of r) = 4" unfolding base inc by simp
  with s one' have "\<exists>lg' r. sequential_merges py_str_example [?a, ?b] ?st (Some ''2025-11-01'')
        ''2025-11-02'' = (Inr (), File lg') \<and>
      filter (\<lambda>w. stored_date w = ''2025-11-01'') (workouts_of lg') = [r] \<and>
      length (exercises_of r) = 4"
    by (intro exI [of _ lg'] exI [of _ r] conjI)
  with h1 h3 show ?thesis by (intro conjI)
qed

end
